theory Spec2Isabelle
  imports Main "HOL-Library.Sublist"
begin

section \<open>Python values used by the providers\<close>

text \<open>
  The providers are Python code running inside the debugger.  Python exceptions are
  values of \<open>py_error\<close>; a function that can raise returns \<open>py_error + 'a\<close>, with
  \<open>Inl\<close> for the exception.  Strings are lists of characters with code points below 256.
\<close>

datatype py_error =
    IndexError
  | ValueError
  | AttributeError string
  | OverflowError
  | UnicodeDecodeError
  | LookupError
  | Exception string string

definition raise_bind :: "py_error + 'a \<Rightarrow> ('a \<Rightarrow> py_error + 'b) \<Rightarrow> py_error + 'b" where
  "raise_bind m f = (case m of Inl e \<Rightarrow> Inl e | Inr x \<Rightarrow> f x)"

subsection \<open>Formatting and parsing integers\<close>

definition digit_char :: "nat \<Rightarrow> char" where
  "digit_char d = ''0123456789'' ! d"

text \<open>\<open>str_nat n\<close> is \<open>f"{n}"\<close> for a non-negative int, \<open>str_int\<close> for any int.\<close>

fun str_nat :: "nat \<Rightarrow> string" where
  "str_nat n = (if n < 10 then [digit_char n] else str_nat (n div 10) @ [digit_char (n mod 10)])"

declare str_nat.simps [simp del]

definition str_int :: "int \<Rightarrow> string" where
  "str_int i = (if i < 0 then CHR ''-'' # str_nat (nat (- i)) else str_nat (nat i))"

definition is_decimal :: "char \<Rightarrow> bool" where
  "is_decimal c = (c \<in> set ''0123456789'')"



definition digit_val :: "char \<Rightarrow> nat" where
  "digit_val c = of_char c - 48"

definition nat_of_digits :: "string \<Rightarrow> nat" where
  "nat_of_digits s = foldl (\<lambda>acc c. 10 * acc + digit_val c) 0 s"


subsection \<open>String methods\<close>

definition endswith :: "string \<Rightarrow> string \<Rightarrow> bool" where
  "endswith s suf = suffix suf s"

definition startswith :: "string \<Rightarrow> string \<Rightarrow> bool" where
  "startswith s pre = prefix pre s"

definition removesuffix :: "string \<Rightarrow> string \<Rightarrow> string" where
  "removesuffix s suf = (if suf \<noteq> [] \<and> endswith s suf then take (length s - length suf) s else s)"

text \<open>\<open>s[-n:]\<close> and \<open>s[:-n]\<close> for a positive literal \<open>n\<close>, \<open>s[1:]\<close> is \<open>drop 1\<close>.\<close>

definition last_n :: "nat \<Rightarrow> string \<Rightarrow> string" where
  "last_n n s = drop (length s - n) s"

definition drop_last_n :: "nat \<Rightarrow> string \<Rightarrow> string" where
  "drop_last_n n s = take (length s - n) s"



text \<open>
  The first occurrence of a separator: the text before it and the text after it.
  \<open>s.partition(sep)\<close> and \<open>s.split(sep, 1)\<close> are both built on it.
\<close>

fun find_sep :: "string \<Rightarrow> string \<Rightarrow> (string \<times> string) option" where
  "find_sep sep [] = (if sep = [] then Some ([], []) else None)"
| "find_sep sep (c # cs) =
     (if prefix sep (c # cs) then Some ([], drop (length sep) (c # cs))
      else map_option (\<lambda>(a, b). (c # a, b)) (find_sep sep cs))"

definition partition_str :: "string \<Rightarrow> string \<Rightarrow> string \<times> string \<times> string" where
  "partition_str s sep =
     (case find_sep sep s of None \<Rightarrow> (s, [], []) | Some (a, b) \<Rightarrow> (a, sep, b))"

definition split1 :: "string \<Rightarrow> string \<Rightarrow> string list" where
  "split1 s sep = (case find_sep sep s of None \<Rightarrow> [s] | Some (a, b) \<Rightarrow> [a, b])"

text \<open>
  \<open>str.splitlines\<close>: the line boundaries below code point 256 are LF, CR, CR LF, VT, FF, FS,
  GS, RS and NEL; the boundary is dropped and no empty last line is produced.
\<close>

definition is_linebreak :: "char \<Rightarrow> bool" where
  "is_linebreak c = (c \<in> set [CHR 0x0A, CHR 0x0B, CHR 0x0C, CHR 0x0D, CHR 0x1C, CHR 0x1D, CHR 0x1E, CHR 0x85])"

fun splitlines_from :: "string \<Rightarrow> bool \<Rightarrow> string \<Rightarrow> string list" where
  "splitlines_from cur after_cr [] = (if cur = [] then [] else [cur])"
| "splitlines_from cur after_cr (c # cs) =
     (if after_cr \<and> c = CHR 0x0A then splitlines_from cur False cs
      else if is_linebreak c then cur # splitlines_from [] (c = CHR 0x0D) cs
      else splitlines_from (cur @ [c]) False cs)"

definition splitlines :: "string \<Rightarrow> string list" where
  "splitlines s = splitlines_from [] False s"

text \<open>\<open>str.strip()\<close> removes white space at both ends.\<close>

definition is_space :: "char \<Rightarrow> bool" where
  "is_space c = (c \<in> set [CHR 0x09, CHR 0x0A, CHR 0x0B, CHR 0x0C, CHR 0x0D, CHR 0x1C, CHR 0x1D, CHR 0x1E,
     CHR 0x1F, CHR 0x20, CHR 0x85, CHR 0xA0])"

definition strip :: "string \<Rightarrow> string" where
  "strip s = rev (dropWhile is_space (rev (dropWhile is_space s)))"

fun join :: "string \<Rightarrow> string list \<Rightarrow> string" where
  "join sep [] = []"
| "join sep [x] = x"
| "join sep (x # y # ys) = x @ sep @ join sep (y # ys)"

section \<open>The debugger's values and types\<close>

text \<open>
  The debugger hands the providers values (SBValue) and types (SBType).  The providers only
  read them, so a value is the tree of what its accessors return, and a type is the chain
  of its pointer and reference layers.  A value here is the raw value with the children
  the debugger shows for it, so \<open>GetNonSyntheticValue\<close> is the identity and is left out.

  The debugger never raises for something it does not find: it answers with an invalid
  type or an invalid value, on which every accessor answers with a default (the empty
  name, 0, no children, None).
\<close>

record type_info =
  type_name :: string
  byte_size :: nat
  basic_type :: nat
  unqualified_name :: string
  static_fields :: "(string \<times> string list) list"

datatype sbtype =
    PointerType type_info sbtype
  | ReferenceType type_info sbtype
  | PlainType type_info
  | InvalidType

fun SBType_info :: "sbtype \<Rightarrow> type_info" where
  "SBType_info (PointerType i p) = i"
| "SBType_info (ReferenceType i p) = i"
| "SBType_info (PlainType i) = i"
| "SBType_info InvalidType =
     \<lparr>type_name = [], byte_size = 0, basic_type = 0, unqualified_name = [], static_fields = []\<rparr>"

fun SBType_IsValid :: "sbtype \<Rightarrow> bool" where
  "SBType_IsValid InvalidType = False"
| "SBType_IsValid t = True"

definition SBType_GetName :: "sbtype \<Rightarrow> string" where
  "SBType_GetName t = type_name (SBType_info t)"

definition SBType_GetByteSize :: "sbtype \<Rightarrow> nat" where
  "SBType_GetByteSize t = byte_size (SBType_info t)"

definition SBType_GetBasicType :: "sbtype \<Rightarrow> nat" where
  "SBType_GetBasicType t = basic_type (SBType_info t)"

fun is_pointer :: "sbtype \<Rightarrow> bool" where
  "is_pointer (PointerType i p) = True"
| "is_pointer t = False"

fun is_reference :: "sbtype \<Rightarrow> bool" where
  "is_reference (ReferenceType i p) = True"
| "is_reference t = False"

definition invalid_type :: sbtype where
  "invalid_type = InvalidType"

fun SBType_GetPointeeType :: "sbtype \<Rightarrow> sbtype" where
  "SBType_GetPointeeType (PointerType i p) = p"
| "SBType_GetPointeeType (ReferenceType i p) = p"
| "SBType_GetPointeeType t = InvalidType"

text \<open>The type without its own const or volatile qualifier: only its name changes.\<close>

fun SBType_GetUnqualifiedType :: "sbtype \<Rightarrow> sbtype" where
  "SBType_GetUnqualifiedType (PointerType i p) = PointerType (i\<lparr>type_name := unqualified_name i\<rparr>) p"
| "SBType_GetUnqualifiedType (ReferenceType i p) = ReferenceType (i\<lparr>type_name := unqualified_name i\<rparr>) p"
| "SBType_GetUnqualifiedType (PlainType i) = PlainType (i\<lparr>type_name := unqualified_name i\<rparr>)"
| "SBType_GetUnqualifiedType InvalidType = InvalidType"

datatype sbvalue =
    SBValue
      (SBValue_name: string)
      (SBValue_GetType: sbtype)
      (SBValue_value: "string option")
      (SBValue_GetValueAsUnsigned: nat)
      (SBValue_children: "sbvalue list")
      (SBValue_str: string)
  | InvalidValue
where
  "SBValue_name InvalidValue = []"
| "SBValue_GetType InvalidValue = InvalidType"
| "SBValue_value InvalidValue = None"
| "SBValue_GetValueAsUnsigned InvalidValue = 0"
| "SBValue_children InvalidValue = []"
| "SBValue_str InvalidValue = ''No value''"

fun SBValue_IsValid :: "sbvalue \<Rightarrow> bool" where
  "SBValue_IsValid InvalidValue = False"
| "SBValue_IsValid v = True"

text \<open>\<open>GetName\<close> of an invalid value is None.\<close>

definition SBValue_GetName :: "sbvalue \<Rightarrow> string option" where
  "SBValue_GetName v = (if SBValue_IsValid v then Some (SBValue_name v) else None)"

definition SBValue_GetNumChildren :: "sbvalue \<Rightarrow> nat" where
  "SBValue_GetNumChildren v = length (SBValue_children v)"

definition SBValue_GetChildAtIndex :: "sbvalue \<Rightarrow> nat \<Rightarrow> sbvalue" where
  "SBValue_GetChildAtIndex v i =
     (if i < length (SBValue_children v) then SBValue_children v ! i else InvalidValue)"

text \<open>The type name of a valid value; of an invalid value it is None (see the callers).\<close>

definition SBValue_GetTypeName :: "sbvalue \<Rightarrow> string" where
  "SBValue_GetTypeName v = SBType_GetName (SBValue_GetType v)"

text \<open>The first child of that name, or the invalid value when there is none.\<close>

definition SBValue_GetChildMemberWithName :: "sbvalue \<Rightarrow> string \<Rightarrow> sbvalue" where
  "SBValue_GetChildMemberWithName v n =
     (case find (\<lambda>c. SBValue_GetName c = Some n) (SBValue_children v) of
        None \<Rightarrow> InvalidValue
      | Some c \<Rightarrow> c)"

text \<open>\<open>f"{child.value}"\<close>: a value without a scalar rendering has the value None.\<close>

definition format_value :: "string option \<Rightarrow> string" where
  "format_value v = (case v of None \<Rightarrow> ''None'' | Some s \<Rightarrow> s)"

section \<open>Sequence summaries\<close>

function sequence_loop :: "sbvalue \<Rightarrow> nat \<Rightarrow> string \<Rightarrow> nat \<Rightarrow> string \<times> bool" where
  "sequence_loop valobj len output i =
     (if i < len then
        (if length output > 32 then (output, True)
         else sequence_loop valobj len
                (output @ format_value (SBValue_value (SBValue_GetChildAtIndex valobj i)) @ '', '')
                (i + 1))
      else (output, False))"
  by pat_completeness auto
termination
  by (relation "measure (\<lambda>(valobj, len, output, i). len - i)") auto

declare sequence_loop.simps [simp del]

definition sequence_formatter :: "string \<Rightarrow> sbvalue \<Rightarrow> string" where
  "sequence_formatter output valobj =
     (let len = SBValue_GetNumChildren valobj;
          (out, long) = sequence_loop valobj len output 0
      in if long then ''(len: '' @ str_nat len @ '') '' @ out @ ''...''
         else drop_last_n 2 out)"

definition ArraySummaryProvider :: "sbvalue \<Rightarrow> string" where
  "ArraySummaryProvider valobj = sequence_formatter ''['' valobj @ '']''"

definition StdSliceSummaryProvider :: "sbvalue \<Rightarrow> string" where
  "StdSliceSummaryProvider valobj = sequence_formatter ''&['' valobj @ '']''"

definition StdVecSummaryProvider :: "sbvalue \<Rightarrow> string" where
  "StdVecSummaryProvider valobj = sequence_formatter ''vec!['' valobj @ '']''"

definition TupleSummaryProvider :: "sbvalue \<Rightarrow> string" where
  "TupleSummaryProvider valobj = sequence_formatter ''('' valobj @ '')''"

section \<open>Resolving type names (rust_types.py)\<close>

text \<open>
  The constants of the debugger's Python module that the resolver reads.  Their values
  belong to the debugger, so the resolver takes the module as an argument.
\<close>

record lldb_module =
  eBasicTypeHalf :: nat
  eBasicTypeLongDouble :: nat

text \<open>One row per basic-type tag: is the type numeric, and is it signed.\<close>

definition NUM_TYPE_MAP :: "(bool \<times> bool) list" where
  "NUM_TYPE_MAP =
    [(False, False),
     (False, False),
     (True, False),
     (True, True),
     (True, False),
     (True, False),
     (True, True),
     (True, False),
     (True, False),
     (True, False),
     (True, False),
     (True, True),
     (True, False),
     (True, True),
     (True, False),
     (True, True),
     (True, False),
     (True, True),
     (True, False),
     (True, True),
     (True, False),
     (False, False),
     (True, True),
     (True, True),
     (True, True),
     (True, True),
     (True, True),
     (True, True),
     (True, True),
     (False, False),
     (False, False),
     (False, False),
     (False, False),
     (False, False)]"

text \<open>The tag is an enumeration value, never negative; a tag past the table raises IndexError.\<close>

definition type_name_from_type :: "lldb_module \<Rightarrow> sbtype \<Rightarrow> py_error + string" where
  "type_name_from_type lldb type =
     (let basic_type = SBType_GetBasicType type in
      if \<not> basic_type < length NUM_TYPE_MAP then Inl IndexError
      else
        let (numeric, signed) = NUM_TYPE_MAP ! basic_type in
        if \<not> numeric then Inr (SBType_GetName type)
        else
          let bit_width = SBType_GetByteSize type * 8 in
          if eBasicTypeHalf lldb \<le> basic_type \<and> basic_type \<le> eBasicTypeLongDouble lldb
          then Inr (''f'' @ str_nat bit_width)
          else Inr ((if signed then ''i'' else ''u'') @ str_nat bit_width))"

section \<open>The providers (lldb_providers.py)\<close>

subsection \<open>Pointer and reference chains\<close>

text \<open>
  The loop of \<open>RefSyntheticProvider.get_type_name\<close>.  The source keeps the pointee of the
  current layer in a second variable; here it is read from the current layer.  Indexing
  the layer's name raises IndexError when the name is empty and has to be looked at,
  which \<open>or\<close> skips when the flag is set.
\<close>

lemma size_GetPointeeType [termination_simp]:
  "is_pointer t \<or> is_reference t \<Longrightarrow> size (SBType_GetPointeeType t) < size t"
  by (cases t) auto

function get_type_name_loop :: "sbtype \<Rightarrow> bool \<Rightarrow> string list \<Rightarrow> py_error + sbtype \<times> string list" where
  "get_type_name_loop ptr_type was_r_ref name_parts =
     (if is_pointer ptr_type \<or> is_reference ptr_type then
        if \<not> was_r_ref \<and> removesuffix (SBType_GetName ptr_type) ''const'' = [] then Inl IndexError
        else
          get_type_name_loop (SBType_GetPointeeType ptr_type)
            (last_n 2 (removesuffix (SBType_GetName ptr_type) ''const'') = ''&&'')
            (name_parts @
              [let ptee_type = SBType_GetPointeeType ptr_type;
                   ptr_name = removesuffix (SBType_GetName ptr_type) ''const'';
                   ptee_name = SBType_GetName ptee_type;
                   is_ref = (was_r_ref \<or> last ptr_name = CHR ''&'')
               in
                 if is_pointer ptee_type \<or> is_reference ptee_type then
                   (if endswith ptee_name ''const'' then (if is_ref then ''&'' else ''*const '')
                    else (if is_ref then ''&mut '' else ''*mut ''))
                 else
                   (if startswith ptee_name ''const '' then (if is_ref then ''&'' else ''*const '')
                    else (if is_ref then ''&mut '' else ''*mut ''))])
      else Inr (ptr_type, name_parts))"
  by pat_completeness auto
termination
  by (relation "measure (\<lambda>(ptr_type, was_r_ref, name_parts). size ptr_type)")
    (auto simp: size_GetPointeeType)

declare get_type_name_loop.simps [simp del]

definition RefSyntheticProvider_get_type_name :: "lldb_module \<Rightarrow> sbvalue \<Rightarrow> py_error + string" where
  "RefSyntheticProvider_get_type_name lldb valobj =
     raise_bind (get_type_name_loop (SBValue_GetType valobj) False [])
       (\<lambda>(ptr_type, name_parts).
          raise_bind (type_name_from_type lldb (SBType_GetUnqualifiedType ptr_type))
            (\<lambda>name. Inr (concat (name_parts @ [name]))))"

subsection \<open>Container providers\<close>

text \<open>
  \<open>target.FindFirstType\<close> looks a type up by name and answers with the invalid type for a
  name it does not know; the target is the debugger's.

  \<open>CreateValueFromAddress\<close> takes the address as an unsigned 64-bit integer: a Python int
  outside that range is refused by the binding with OverflowError.  Within the range the
  debugger makes a value of the given name and type at the address, and answers with an
  invalid, nameless value when the value it is called on or the type is invalid.  A made
  value is recorded by its name, its address and its type, and by whether the provider
  then sets the character format.
\<close>

type_synonym target = "string \<Rightarrow> sbtype"

text \<open>\<open>valobj.target\<close>: an invalid value has an invalid target, which finds no type.\<close>

definition SBValue_GetTarget :: "target \<Rightarrow> sbvalue \<Rightarrow> target" where
  "SBValue_GetTarget target v = (if SBValue_IsValid v then target else (\<lambda>name. InvalidType))"

datatype created_value =
    CreatedValue (cv_name: string) (cv_address: int) (cv_type: sbtype) (cv_format_char: bool)
  | NoValue


definition CreateValueFromAddress :: "sbvalue \<Rightarrow> string \<Rightarrow> int \<Rightarrow> sbtype \<Rightarrow> py_error + created_value" where
  "CreateValueFromAddress self name address type =
     (if address < 0 \<or> 2 ^ 64 \<le> address then Inl OverflowError
      else if SBValue_IsValid self \<and> SBType_IsValid type
      then Inr (CreatedValue name address type False)
      else Inr NoValue)"



record array_provider =
  array_children :: "sbvalue list"
  array_length :: nat

text \<open>Of \<open>ArraySyntheticProvider.update\<close> the children and their count are kept.\<close>

definition ArraySyntheticProvider_update :: "sbvalue \<Rightarrow> array_provider" where
  "ArraySyntheticProvider_update valobj =
     \<lparr>array_children = SBValue_children valobj, array_length = length (SBValue_children valobj)\<rparr>"


record slice_provider =
  slice_length :: nat
  slice_data_ptr :: sbvalue
  slice_element_type_name :: string
  slice_element_type :: sbtype
  slice_element_size :: nat

definition StdSliceSyntheticProvider_update :: "lldb_module \<Rightarrow> target \<Rightarrow> sbvalue \<Rightarrow> py_error + slice_provider" where
  "StdSliceSyntheticProvider_update lldb target valobj =
     (let len = SBValue_GetValueAsUnsigned (SBValue_GetChildMemberWithName valobj ''length'');
          data_ptr = SBValue_GetChildMemberWithName valobj ''data_ptr''
      in raise_bind (type_name_from_type lldb (SBType_GetPointeeType (SBValue_GetType data_ptr)))
           (\<lambda>element_type_name.
              Inr \<lparr>slice_length = len,
                   slice_data_ptr = data_ptr,
                   slice_element_type_name = element_type_name,
                   slice_element_type = SBValue_GetTarget target valobj element_type_name,
                   slice_element_size =
                     SBType_GetByteSize (SBValue_GetTarget target valobj element_type_name)\<rparr>))"


record vec_provider =
  vec_length :: nat
  vec_data_ptr :: sbvalue
  vec_element_type :: sbtype
  vec_element_size :: nat

text \<open>The data pointer behind the wrappers \<open>buf\<close>, \<open>inner\<close>, \<open>ptr\<close>, \<open>pointer\<close>, \<open>pointer\<close>.\<close>

definition vec_data_pointer :: "sbvalue \<Rightarrow> sbvalue" where
  "vec_data_pointer v =
     SBValue_GetChildMemberWithName
       (SBValue_GetChildMemberWithName
          (SBValue_GetChildMemberWithName
             (SBValue_GetChildMemberWithName
                (SBValue_GetChildMemberWithName v ''buf'') ''inner'') ''ptr'') ''pointer'')
       ''pointer''"

text \<open>The first generic parameter, as \<open>update\<close> cuts it out of the type name.\<close>

definition vec_element_name :: "string \<Rightarrow> string" where
  "vec_element_name name =
     (let (_, _, end) = partition_str name ''<'';
          (element_name, _, _) = partition_str end '',''
      in element_name)"

text \<open>
  \<open>GetTypeName\<close> of an invalid value is None, and \<open>partition\<close> on it raises
  AttributeError.
\<close>

definition MSVCStdVecSyntheticProvider_update :: "target \<Rightarrow> sbvalue \<Rightarrow> py_error + vec_provider" where
  "MSVCStdVecSyntheticProvider_update target valobj =
     (let len = SBValue_GetValueAsUnsigned (SBValue_GetChildMemberWithName valobj ''len'');
          data_ptr = vec_data_pointer valobj
      in if \<not> SBValue_IsValid valobj then Inl (AttributeError ''partition'')
         else
           let element_name = vec_element_name (SBValue_GetTypeName valobj);
               element_type = SBValue_GetTarget target valobj element_name
           in Inr \<lparr>vec_length = len,
                    vec_data_ptr = data_ptr,
                    vec_element_type = element_type,
                    vec_element_size = SBType_GetByteSize element_type\<rparr>)"

definition MSVCStdVecSyntheticProvider_get_child_at_index :: "vec_provider \<Rightarrow> int \<Rightarrow> py_error + created_value option" where
  "MSVCStdVecSyntheticProvider_get_child_at_index self index =
     (if \<not> (0 \<le> index \<and> index < int (vec_length self)) then Inr None
      else
        let start = int (SBValue_GetValueAsUnsigned (vec_data_ptr self));
            offset = start + index * int (vec_element_size self)
        in raise_bind
             (CreateValueFromAddress (vec_data_ptr self) (''['' @ str_int index @ '']'') offset
                (vec_element_type self))
             (\<lambda>element. Inr (Some element)))"

definition MSVCStdVecSyntheticProvider_get_type_name :: "vec_provider \<Rightarrow> string" where
  "MSVCStdVecSyntheticProvider_get_type_name self =
     ''Vec<'' @ SBType_GetName (vec_element_type self) @ ''>''"

record str_provider =
  str_data_ptr :: sbvalue
  str_length :: nat

definition MSVCstrSyntheticProvider_update :: "sbvalue \<Rightarrow> str_provider" where
  "MSVCstrSyntheticProvider_update valobj =
     \<lparr>str_data_ptr = SBValue_GetChildMemberWithName valobj ''data_ptr'',
      str_length = SBValue_GetValueAsUnsigned (SBValue_GetChildMemberWithName valobj ''length'')\<rparr>"


record string_provider =
  string_data_ptr :: sbvalue
  string_length :: nat
  string_element_type :: sbtype

definition StdStringSyntheticProvider_update :: "sbvalue \<Rightarrow> string_provider" where
  "StdStringSyntheticProvider_update valobj =
     (let inner_vec = SBValue_GetChildMemberWithName valobj ''vec'';
          data_ptr = vec_data_pointer inner_vec
      in \<lparr>string_data_ptr = data_ptr,
           string_length = SBValue_GetValueAsUnsigned (SBValue_GetChildMemberWithName inner_vec ''len''),
           string_element_type = SBType_GetPointeeType (SBValue_GetType data_ptr)\<rparr>)"


subsection \<open>String summaries\<close>

text \<open>
  Modelled from the spec: \<open>bytes.decode\<close> is Python's own and no part of the repository.
  The spec asks for the bytes "decoded as UTF-8 with lossy replacement of invalid
  sequences", rendered "using the replacement character rather than failing".  The
  well-formed sequences are those of the Unicode standard: one byte below 0x80; a lead
  byte 0xC2 to 0xDF, 0xE0 to 0xEF or 0xF0 to 0xF4 followed by one, two or three
  continuation bytes 0x80 to 0xBF, where the first continuation byte is restricted after
  the lead bytes 0xE0, 0xED, 0xF0 and 0xF4 (no overlong forms, no surrogates, nothing
  past U+10FFFF).  \<open>utf8_next\<close> reads one sequence: its scalar value, or None for an
  ill-formed one, and the number of bytes it covers (the lead byte and the continuation
  bytes that were still acceptable).  With the handler \<open>replace\<close> every ill-formed
  sequence becomes U+FFFD and decoding goes on behind it; with \<open>strict\<close> it raises
  UnicodeDecodeError.  The decoded text is a list of code points.
\<close>

type_synonym bytes = "char list"
type_synonym unicode = "nat list"

definition is_continuation :: "nat \<Rightarrow> bool" where
  "is_continuation b = (0x80 \<le> b \<and> b \<le> 0xBF)"

definition second_byte_ok :: "nat \<Rightarrow> nat \<Rightarrow> bool" where
  "second_byte_ok b0 b1 =
     (if b0 = 0xE0 then 0xA0 \<le> b1 \<and> b1 \<le> 0xBF
      else if b0 = 0xED then 0x80 \<le> b1 \<and> b1 \<le> 0x9F
      else if b0 = 0xF0 then 0x90 \<le> b1 \<and> b1 \<le> 0xBF
      else if b0 = 0xF4 then 0x80 \<le> b1 \<and> b1 \<le> 0x8F
      else is_continuation b1)"

definition utf8_next :: "nat list \<Rightarrow> nat option \<times> nat" where
  "utf8_next bs =
     (case bs of
        [] \<Rightarrow> (None, 0)
      | b0 # r \<Rightarrow>
          if b0 < 0x80 then (Some b0, 1)
          else if 0xC2 \<le> b0 \<and> b0 \<le> 0xDF then
            (case r of
               [] \<Rightarrow> (None, 1)
             | b1 # _ \<Rightarrow>
                 if is_continuation b1 then (Some ((b0 - 0xC0) * 64 + (b1 - 0x80)), 2)
                 else (None, 1))
          else if 0xE0 \<le> b0 \<and> b0 \<le> 0xEF then
            (case r of
               [] \<Rightarrow> (None, 1)
             | b1 # r1 \<Rightarrow>
                 if \<not> second_byte_ok b0 b1 then (None, 1)
                 else
                   (case r1 of
                      [] \<Rightarrow> (None, 2)
                    | b2 # _ \<Rightarrow>
                        if is_continuation b2
                        then (Some ((b0 - 0xE0) * 4096 + (b1 - 0x80) * 64 + (b2 - 0x80)), 3)
                        else (None, 2)))
          else if 0xF0 \<le> b0 \<and> b0 \<le> 0xF4 then
            (case r of
               [] \<Rightarrow> (None, 1)
             | b1 # r1 \<Rightarrow>
                 if \<not> second_byte_ok b0 b1 then (None, 1)
                 else
                   (case r1 of
                      [] \<Rightarrow> (None, 2)
                    | b2 # r2 \<Rightarrow>
                        if \<not> is_continuation b2 then (None, 2)
                        else
                          (case r2 of
                             [] \<Rightarrow> (None, 3)
                           | b3 # _ \<Rightarrow>
                               if is_continuation b3
                               then (Some ((b0 - 0xF0) * 262144 + (b1 - 0x80) * 4096
                                           + (b2 - 0x80) * 64 + (b3 - 0x80)), 4)
                               else (None, 3))))
          else (None, 1))"

lemma utf8_next_consumes [termination_simp]: "bs \<noteq> [] \<Longrightarrow> 0 < snd (utf8_next bs)"
  by (auto simp: utf8_next_def split: list.splits)

function utf8_decode :: "string \<Rightarrow> nat list \<Rightarrow> py_error + unicode" where
  "utf8_decode errors bs =
     (if bs = [] then Inr []
      else
        case fst (utf8_next bs) of
          Some c \<Rightarrow>
            raise_bind (utf8_decode errors (drop (snd (utf8_next bs)) bs)) (\<lambda>rest. Inr (c # rest))
        | None \<Rightarrow>
            if errors = ''replace'' then
              raise_bind (utf8_decode errors (drop (snd (utf8_next bs)) bs))
                (\<lambda>rest. Inr (0xFFFD # rest))
            else if errors = ''strict'' then Inl UnicodeDecodeError
            else Inl LookupError)"
  by pat_completeness auto
termination
  by (relation "measure (\<lambda>(errors, bs). length bs)") (auto simp: utf8_next_consumes)

declare utf8_decode.simps [simp del]

definition bytes_decode :: "bytes \<Rightarrow> string \<Rightarrow> string \<Rightarrow> py_error + unicode" where
  "bytes_decode data encoding errors =
     (if encoding = ''utf8'' then utf8_decode errors (map of_char data) else Inl LookupError)"

text \<open>
  The process of a value reads memory: \<open>ReadMemory\<close> gives the bytes at an address or fails
  with a message.  The memory is the debuggee's and is an argument.  An invalid value has
  an invalid process, on which every read fails.
\<close>

type_synonym read_memory = "nat \<Rightarrow> nat \<Rightarrow> string + bytes"

definition SBValue_GetProcess :: "read_memory \<Rightarrow> sbvalue \<Rightarrow> read_memory" where
  "SBValue_GetProcess memory v =
     (if SBValue_IsValid v then memory else (\<lambda>address size. Inl ''SBProcess is invalid''))"

definition MSVCstrSummaryProvider :: "read_memory \<Rightarrow> sbvalue \<Rightarrow> py_error + unicode" where
  "MSVCstrSummaryProvider memory valobj =
     (let pointer = SBValue_GetChildMemberWithName valobj ''data_ptr'';
          length = SBValue_GetValueAsUnsigned (SBValue_GetChildMemberWithName valobj ''length'')
      in if length \<le> 0 then Inr []
         else
           let process = SBValue_GetProcess memory pointer
           in case process (SBValue_GetValueAsUnsigned pointer) length of
                Inr data \<Rightarrow> bytes_decode data ''utf8'' ''replace''
              | Inl msg \<Rightarrow> Inl (Exception ''ReadMemory error: %s'' msg))"

definition StdStringSummaryProvider :: "read_memory \<Rightarrow> sbvalue \<Rightarrow> py_error + unicode" where
  "StdStringSummaryProvider memory valobj =
     (let inner_vec = SBValue_GetChildMemberWithName valobj ''vec'';
          pointer = vec_data_pointer inner_vec;
          length = SBValue_GetValueAsUnsigned (SBValue_GetChildMemberWithName inner_vec ''len'')
      in if length \<le> 0 then Inr []
         else
           let process = SBValue_GetProcess memory pointer
           in case process (SBValue_GetValueAsUnsigned pointer) length of
                Inr data \<Rightarrow> bytes_decode data ''utf8'' ''replace''
              | Inl msg \<Rightarrow> Inl (Exception ''ReadMemory error: %s'' msg))"

subsection \<open>Sum types\<close>

datatype VariantType = DISCRIMINANT | TUPLE | STRUCT

text \<open>
  The attributes of a provider object.  An attribute that no statement has assigned yet
  is \<open>None\<close>, and reading it raises AttributeError.
\<close>

record enum_provider =
  enum_valobj :: sbvalue
  enum_is_niche :: bool
  enum_variant :: "sbvalue option"
  enum_tag :: "nat option"
  enum_variant_type :: "VariantType option"
  enum_variant_name :: "string option"

definition getattr :: "string \<Rightarrow> 'a option \<Rightarrow> py_error + 'a" where
  "getattr name attr = (case attr of None \<Rightarrow> Inl (AttributeError name) | Some x \<Rightarrow> Inr x)"

text \<open>
  A static field of a type is known by the names of the enumerators of its own type;
  a field the type does not have is not valid.
\<close>

definition SBType_GetStaticFieldWithName :: "sbtype \<Rightarrow> string \<Rightarrow> string list option" where
  "SBType_GetStaticFieldWithName t name = map_of (static_fields (SBType_info t)) name"

text \<open>\<open>update\<close> does not raise: the lookup of the variant name is inside \<open>try\<close>.\<close>

definition MSVCEnumSyntheticProvider_update :: "enum_provider \<Rightarrow> py_error + enum_provider" where
  "MSVCEnumSyntheticProvider_update self =
     (if enum_is_niche self then Inr (self\<lparr>enum_variant := Some (enum_valobj self)\<rparr>)
      else
        let tag = SBValue_GetValueAsUnsigned (SBValue_GetChildMemberWithName (enum_valobj self) ''tag'');
            var = SBValue_GetChildMemberWithName (enum_valobj self) (''variant'' @ str_nat tag);
            variant = SBValue_GetChildMemberWithName var ''value'';
            variant_type =
              (if SBValue_GetNumChildren variant = 0 then DISCRIMINANT
               else if SBValue_GetName (SBValue_GetChildAtIndex variant 0) = Some ''__0'' then TUPLE
               else STRUCT);
            variant_name =
              (case SBType_GetStaticFieldWithName (SBValue_GetType var) ''NAME'' of
                 None \<Rightarrow> []
               | Some enum_members \<Rightarrow> if tag < length enum_members then enum_members ! tag else [])
        in Inr (self\<lparr>enum_tag := Some tag, enum_variant := Some variant,
                     enum_variant_type := Some variant_type,
                     enum_variant_name := Some variant_name\<rparr>))"

text \<open>
  The loop of the constructor: the layout is a niche layout when, among all children but
  the last, one has a type named \<open>...Variant<i>\<close> at its index \<open>i\<close> and without the
  static field \<open>DISCR_EXACT\<close>.
\<close>

definition niche_scan :: "sbvalue \<Rightarrow> bool" where
  "niche_scan valobj =
     (let num_children = SBValue_GetNumChildren valobj
      in list_ex (\<lambda>i. let t = SBValue_GetType (SBValue_GetChildAtIndex valobj i)
                       in endswith (SBType_GetName t) (''Variant'' @ str_nat i)
                          \<and> SBType_GetStaticFieldWithName t ''DISCR_EXACT'' = None)
           [0 ..< num_children - 1])"

text \<open>The constructor: the scan, then \<open>update\<close>.\<close>

definition MSVCEnumSyntheticProvider_init :: "sbvalue \<Rightarrow> py_error + enum_provider" where
  "MSVCEnumSyntheticProvider_init valobj =
     MSVCEnumSyntheticProvider_update
       \<lparr>enum_valobj = valobj, enum_is_niche = niche_scan valobj, enum_variant = None,
        enum_tag = None, enum_variant_type = None, enum_variant_name = None\<rparr>"

text \<open>
  The field list of a named payload, cut out of the text the debugger prints for the
  value (\<open>str(value)\<close>): what follows the first \<open>= \<close>, line by line, without the lines
  \<open>{\<close> and \<open>}\<close>, each line stripped, and without a parenthesis around the whole.
\<close>

definition struct_vars :: "string \<Rightarrow> py_error + string list" where
  "struct_vars description =
     (case split1 description ''= '' of
        [_, rest] \<Rightarrow>
          (let var_list = splitlines rest;
               vars = map strip (filter (\<lambda>x. x \<noteq> ''{'' \<and> x \<noteq> ''}'') var_list)
           in if vars = [] then Inl IndexError
              else if vars ! 0 = [] then Inl IndexError
              else
                let vars = (if hd (vars ! 0) = CHR ''('' then vars[0 := drop 1 (vars ! 0)] else vars)
                in if last vars = [] then Inl IndexError
                   else
                     Inr (if last (last vars) = CHR '')''
                          then vars[length vars - 1 := drop_last_n 1 (last vars)]
                          else vars))
      | _ \<Rightarrow> Inl IndexError)"

definition MSVCEnumSummaryProvider :: "sbvalue \<Rightarrow> py_error + string" where
  "MSVCEnumSummaryProvider valobj =
     raise_bind (MSVCEnumSyntheticProvider_init valobj) (\<lambda>val.
       if enum_is_niche val then
         raise_bind (getattr ''tag'' (enum_tag val)) (\<lambda>tag. Inr (str_nat tag))
       else
         raise_bind (getattr ''variant_type'' (enum_variant_type val)) (\<lambda>variant_type.
           if variant_type = TUPLE then
             raise_bind (getattr ''variant_name'' (enum_variant_name val)) (\<lambda>variant_name.
             raise_bind (getattr ''variant'' (enum_variant val)) (\<lambda>variant.
               Inr (variant_name @ TupleSummaryProvider variant)))
           else if variant_type = STRUCT then
             raise_bind (getattr ''variant'' (enum_variant val)) (\<lambda>variant.
             raise_bind (struct_vars (SBValue_str variant)) (\<lambda>vars.
             raise_bind (getattr ''variant_name'' (enum_variant_name val)) (\<lambda>variant_name.
               Inr (variant_name @ ''{'' @ join '', '' vars @ ''}''))))
           else getattr ''variant_name'' (enum_variant_name val)))"

section \<open>Notions used to state the properties\<close>

text \<open>
  The previews of the children of a value, in order, and the text the formatter has
  accumulated when it tests the length before element \<open>k\<close>.
\<close>

definition previews :: "sbvalue \<Rightarrow> string list" where
  "previews valobj = map (\<lambda>c. format_value (SBValue_value c)) (SBValue_children valobj)"

definition accumulated :: "string \<Rightarrow> string list \<Rightarrow> nat \<Rightarrow> string" where
  "accumulated output ps k = output @ concat (map (\<lambda>p. p @ '', '') (take k ps))"

text \<open>Two sequences on which the length test is looked at closely.\<close>

definition short_vec :: sbvalue where
  "short_vec = SBValue ''v'' invalid_type None 0
     [SBValue ''[0]'' invalid_type (Some ''aaaaaaaaaaaa'') 0 [] [],
      SBValue ''[1]'' invalid_type (Some ''bbbbbbbbbbbb'') 0 [] [],
      SBValue ''[2]'' invalid_type (Some ''c'') 0 [] []] []"

definition wide_array :: sbvalue where
  "wide_array = SBValue ''v'' invalid_type None 0
     [SBValue ''[0]'' invalid_type (Some ''0123456789012345678901234567890123456789'') 0 [] []] []"

text \<open>
  A resolved numeric name has the form of the pattern \<open>^[iuf]\d+$\<close>: one of the letters
  \<open>i\<close>, \<open>u\<close>, \<open>f\<close> and then decimal digits, at least one.  Its width is the number the
  digits spell.
\<close>

definition matches_numeric_name :: "string \<Rightarrow> bool" where
  "matches_numeric_name s =
     (case s of [] \<Rightarrow> False | c # ds \<Rightarrow> c \<in> set ''iuf'' \<and> ds \<noteq> [] \<and> list_all is_decimal ds)"

definition numeric_name_width :: "string \<Rightarrow> nat" where
  "numeric_name_width s = nat_of_digits (tl s)"

definition numeric_type :: "nat \<Rightarrow> nat \<Rightarrow> sbtype" where
  "numeric_type tag bytes = PlainType \<lparr>type_name = ''c name'', byte_size = bytes, basic_type = tag,
     unqualified_name = ''c name'', static_fields = []\<rparr>"

text \<open>
  A vector of three \<open>u32\<close> at address 4096, as the debugger shows it: the length, and the
  data pointer behind its wrappers.  A vector of pairs has a comma inside its first
  generic parameter.  A vector that was never initialised can hold any bits: one has its
  data pointer at the last address.
\<close>

definition named_type :: "string \<Rightarrow> nat \<Rightarrow> sbtype" where
  "named_type name bytes = PlainType \<lparr>type_name = name, byte_size = bytes, basic_type = 0,
     unqualified_name = name, static_fields = []\<rparr>"

definition field :: "string \<Rightarrow> nat \<Rightarrow> sbvalue list \<Rightarrow> sbvalue" where
  "field name n children = SBValue name invalid_type None n children []"

definition vec_layout :: "string \<Rightarrow> nat \<Rightarrow> nat \<Rightarrow> sbvalue" where
  "vec_layout type_name' address len =
     SBValue ''v'' (named_type type_name' 24) None 0
       [field ''buf'' 0
          [field ''inner'' 0
             [field ''ptr'' 0 [field ''pointer'' 0 [field ''pointer'' address []]],
              field ''cap'' 0 []]],
        field ''len'' len []] []"

definition vec_u32 :: sbvalue where
  "vec_u32 = vec_layout ''alloc::vec::Vec<u32,alloc::alloc::Global>'' 4096 3"

definition vec_of_pairs :: sbvalue where
  "vec_of_pairs = vec_layout ''alloc::vec::Vec<tuple$<u8,u16>,alloc::alloc::Global>'' 4096 3"

definition vec_at_last_address :: sbvalue where
  "vec_at_last_address =
     vec_layout ''alloc::vec::Vec<u32,alloc::alloc::Global>'' 18446744073709551615 2"

definition example_target :: target where
  "example_target name =
     (if name = ''u32'' then named_type ''u32'' 4
      else if name = ''tuple$<u8,u16>'' then named_type ''tuple$<u8,u16>'' 4
      else invalid_type)"



text \<open>
  The first generic parameter as the text between the first \<open><\<close> and the first comma
  that is not inside a nested pair of angle brackets.
\<close>

fun upto_top_level_comma :: "nat \<Rightarrow> string \<Rightarrow> string" where
  "upto_top_level_comma depth [] = []"
| "upto_top_level_comma depth (c # cs) =
     (if c = CHR '','' \<and> depth = 0 then []
      else if c = CHR ''<'' then c # upto_top_level_comma (depth + 1) cs
      else if c = CHR ''>'' then c # upto_top_level_comma (depth - 1) cs
      else c # upto_top_level_comma depth cs)"

definition first_generic_parameter :: "string \<Rightarrow> string" where
  "first_generic_parameter name =
     (let (_, _, end) = partition_str name ''<'' in upto_top_level_comma 0 end)"

text \<open>
  A borrowed string at an address with a length, and an owned string over the vector
  layout.  In the example memory the two bytes at 8192 are \<open>hi\<close>, the three bytes at
  12288 are \<open>h\<close>, the byte 0xFF (ill-formed in UTF-8) and \<open>i\<close>, the two bytes at 16384
  are the UTF-8 form of U+00E9; nothing else can be read.
\<close>

definition str_layout :: "nat \<Rightarrow> nat \<Rightarrow> sbvalue" where
  "str_layout address len =
     SBValue ''s'' (named_type ''ref$<str$>'' 16) None 0
       [field ''data_ptr'' address [], field ''length'' len []] []"

definition string_layout :: "nat \<Rightarrow> nat \<Rightarrow> sbvalue" where
  "string_layout address len =
     SBValue ''s'' (named_type ''alloc::string::String'' 24) None 0
       [SBValue ''vec'' (named_type ''alloc::vec::Vec<u8,alloc::alloc::Global>'' 24) None 0
          [field ''buf'' 0
             [field ''inner'' 0
                [field ''ptr'' 0 [field ''pointer'' 0 [field ''pointer'' address []]],
                 field ''cap'' 0 []]],
           field ''len'' len []] []] []"

definition example_memory :: read_memory where
  "example_memory address len =
     (if address = 8192 \<and> len = 2 then Inr ''hi''
      else if address = 12288 \<and> len = 3 then Inr [CHR ''h'', CHR 0xFF, CHR ''i'']
      else if address = 16384 \<and> len = 2 then Inr [CHR 0xC3, CHR 0xA9]
      else Inl ''memory read failed'')"

text \<open>
  Sum types as the compiler lays them out for the debugger: one child \<open>variant<i>\<close> per
  variant and a last child \<open>tag\<close>.  The type of \<open>variant<i>\<close> is named \<open>...::Variant<i>\<close>
  and has the static field \<open>NAME\<close>, whose type enumerates the variant names; with a tagged
  layout it has the static field \<open>DISCR_EXACT\<close> as well, with a niche layout it has not.
\<close>

definition variant_struct :: "nat \<Rightarrow> (string \<times> string list) list \<Rightarrow> sbtype" where
  "variant_struct i statics =
     PlainType \<lparr>type_name = ''enum2$<Shape>::Variant'' @ str_nat i, byte_size = 16, basic_type = 0,
       unqualified_name = ''enum2$<Shape>::Variant'' @ str_nat i, static_fields = statics\<rparr>"


definition niche_statics :: "(string \<times> string list) list" where
  "niche_statics = [(''NAME'', [''Unit'', ''Pair'']), (''DISCR_BEGIN'', []), (''DISCR_END'', [])]"

definition scalar :: "string \<Rightarrow> string \<Rightarrow> sbvalue" where
  "scalar name text = SBValue name (named_type ''u32'' 4) (Some text) 0 [] []"

definition sum_layout :: "(string \<times> string list) list \<Rightarrow> nat \<Rightarrow> sbvalue \<Rightarrow> sbvalue" where
  "sum_layout statics tag payload =
     SBValue ''e'' (named_type ''enum2$<Shape>'' 16) None 0
       [SBValue ''variant0'' (variant_struct 0 statics) None 0
          [SBValue ''value'' (named_type ''Shape::Unit'' 0) None 0 [] []] [],
        SBValue ''variant1'' (variant_struct 1 statics) None 0 [payload] [],
        field ''tag'' tag []] []"


definition pair_payload :: "string \<Rightarrow> string \<Rightarrow> sbvalue" where
  "pair_payload v0 v1 =
     SBValue ''value'' (named_type ''Shape::Pair'' 8) None 0 [scalar ''__0'' v0, scalar ''__1'' v1] []"











text \<open>
  A type as a chain: its pointer and reference layers, outermost first, and the target
  behind them.  A layer's own name is its name without a trailing \<open>const\<close>; the layer is
  shaped like an rvalue reference when that name ends in \<open>&&\<close>.  The pointee of a layer
  is const when its name ends in \<open>const\<close>, for a pointee that is itself a layer, or
  starts with \<open>const \<close>, for the target.  The prefix of a layer is that of a reference when
  the layer before it was shaped like an rvalue reference or its own name ends in \<open>&\<close>.
\<close>

fun chain_layers :: "sbtype \<Rightarrow> sbtype list" where
  "chain_layers (PointerType i p) = PointerType i p # chain_layers p"
| "chain_layers (ReferenceType i p) = ReferenceType i p # chain_layers p"
| "chain_layers t = []"

fun chain_target :: "sbtype \<Rightarrow> sbtype" where
  "chain_target (PointerType i p) = chain_target p"
| "chain_target (ReferenceType i p) = chain_target p"
| "chain_target t = t"

definition own_name :: "sbtype \<Rightarrow> string" where
  "own_name l =
     (if suffix ''const'' (type_name (SBType_info l))
      then take (length (type_name (SBType_info l)) - 5) (type_name (SBType_info l))
      else type_name (SBType_info l))"

definition rref_shaped :: "sbtype \<Rightarrow> bool" where
  "rref_shaped l = suffix ''&&'' (own_name l)"

definition pointee_const :: "sbtype \<Rightarrow> bool" where
  "pointee_const l =
     (case l of
        PointerType _ (PointerType i _) \<Rightarrow> suffix ''const'' (type_name i)
      | PointerType _ (ReferenceType i _) \<Rightarrow> suffix ''const'' (type_name i)
      | PointerType _ p \<Rightarrow> prefix ''const '' (type_name (SBType_info p))
      | ReferenceType _ (PointerType i _) \<Rightarrow> suffix ''const'' (type_name i)
      | ReferenceType _ (ReferenceType i _) \<Rightarrow> suffix ''const'' (type_name i)
      | ReferenceType _ p \<Rightarrow> prefix ''const '' (type_name (SBType_info p))
      | _ \<Rightarrow> False)"

definition layer_prefix :: "bool \<Rightarrow> sbtype \<Rightarrow> string" where
  "layer_prefix after_rref l =
     (if after_rref \<or> suffix ''&'' (own_name l)
      then (if pointee_const l then ''&'' else ''&mut '')
      else (if pointee_const l then ''*const '' else ''*mut ''))"

definition chain_prefixes :: "sbtype \<Rightarrow> string list" where
  "chain_prefixes t =
     map2 layer_prefix (False # map rref_shaped (chain_layers t)) (chain_layers t)"

text \<open>
  The type \<open>u8 *&&const\<close>: a const-qualified rvalue reference to a pointer to \<open>u8\<close>.
  Only without its trailing \<open>const\<close> does the name of the outer layer end in \<open>&&\<close>.
\<close>

definition u8_type :: sbtype where
  "u8_type = PlainType \<lparr>type_name = ''u8'', byte_size = 1, basic_type = 4,
     unqualified_name = ''u8'', static_fields = []\<rparr>"

definition layer_info :: "string \<Rightarrow> type_info" where
  "layer_info name = \<lparr>type_name = name, byte_size = 8, basic_type = 0,
     unqualified_name = name, static_fields = []\<rparr>"

definition rref_to_pointer :: sbtype where
  "rref_to_pointer =
     ReferenceType (layer_info ''u8 *&&const'') (PointerType (layer_info ''u8 *'') u8_type)"

definition lldb_constants :: lldb_module where
  "lldb_constants = \<lparr>eBasicTypeHalf = 22, eBasicTypeLongDouble = 25\<rparr>"

section \<open>Verified properties\<close>

subsection \<open>Sequence summaries\<close>

text \<open>
  C10.  For a value with no children the formatter does not enter its loop and returns
  the open token without its last two characters; with the close token appended, the
  array and the slice summary of an empty value are \<open>]\<close> and the vec summary is \<open>vec]\<close>.
\<close>

theorem empty_sequence_summary:
  assumes "SBValue_GetNumChildren valobj = 0"
  shows "sequence_loop valobj (SBValue_GetNumChildren valobj) output 0 = (output, False)
    \<and> sequence_formatter output valobj = take (length output - 2) output
    \<and> ArraySummaryProvider valobj = '']''
    \<and> StdSliceSummaryProvider valobj = '']''
    \<and> StdVecSummaryProvider valobj = ''vec]''"
proof -
  have loop: "sequence_loop valobj 0 out 0 = (out, False)" for out
    by (simp add: sequence_loop.simps)
  have fmt: "sequence_formatter out valobj = take (length out - 2) out" for out
    using assms by (simp add: sequence_formatter_def loop drop_last_n_def)
  show ?thesis
    using assms
    by (simp add: loop fmt ArraySummaryProvider_def StdSliceSummaryProvider_def
        StdVecSummaryProvider_def)
qed

theorem empty_sequence_summary_witness:
  "SBValue_GetNumChildren (SBValue ''v'' invalid_type None 0 [] ''v'') = 0
   \<and> sequence_formatter ''vec!['' (SBValue ''v'' invalid_type None 0 [] ''v'') = ''vec''
   \<and> ArraySummaryProvider (SBValue ''v'' invalid_type None 0 [] ''v'') = '']''
   \<and> StdSliceSummaryProvider (SBValue ''v'' invalid_type None 0 [] ''v'') = '']''
   \<and> StdVecSummaryProvider (SBValue ''v'' invalid_type None 0 [] ''v'') = ''vec]''"
proof -
  have h: "SBValue_GetNumChildren (SBValue ''v'' invalid_type None 0 [] ''v'') = 0"
    by (simp add: SBValue_GetNumChildren_def)
  show ?thesis
    using h empty_sequence_summary [OF h, of "''vec![''"] by simp
qed

lemma accumulated_Suc:
  "k < length ps \<Longrightarrow> accumulated output ps (Suc k) = accumulated output ps k @ ps ! k @ '', ''"
  by (simp add: accumulated_def take_Suc_conv_app_nth)

lemma previews_nth:
  "i < SBValue_GetNumChildren v \<Longrightarrow> previews v ! i = format_value (SBValue_value (SBValue_GetChildAtIndex v i))"
  by (simp add: previews_def SBValue_GetNumChildren_def SBValue_GetChildAtIndex_def)

lemma length_previews: "length (previews v) = SBValue_GetNumChildren v"
  by (simp add: previews_def SBValue_GetNumChildren_def)

lemma loop_all:
  assumes "\<forall>k<n. length (accumulated output (previews v) k) \<le> 32" "n = SBValue_GetNumChildren v"
  shows "i \<le> n \<Longrightarrow> sequence_loop v n (accumulated output (previews v) i) i = (accumulated output (previews v) n, False)"
proof (induction "n - i" arbitrary: i)
  case 0
  then show ?case by (simp add: sequence_loop.simps)
next
  case (Suc d)
  then have lt: "i < n" by simp
  have le: "length (accumulated output (previews v) i) \<le> 32" using assms lt by simp
  have "sequence_loop v n (accumulated output (previews v) i) i
      = sequence_loop v n (accumulated output (previews v) (Suc i)) (Suc i)"
    using lt le assms(2)
    by (subst sequence_loop.simps) (simp add: accumulated_Suc length_previews previews_nth)
  also have "\<dots> = (accumulated output (previews v) n, False)"
    using Suc lt by simp
  finally show ?case .
qed

lemma loop_long:
  assumes "k < n" "length (accumulated output (previews v) k) > 32"
    "\<forall>j<k. length (accumulated output (previews v) j) \<le> 32" "n = SBValue_GetNumChildren v"
  shows "i \<le> k \<Longrightarrow> sequence_loop v n (accumulated output (previews v) i) i = (accumulated output (previews v) k, True)"
proof (induction "k - i" arbitrary: i)
  case 0
  then have "i = k" by simp
  then show ?case using assms by (subst sequence_loop.simps) simp
next
  case (Suc d)
  then have lt: "i < k" by simp
  have le: "length (accumulated output (previews v) i) \<le> 32" using assms lt by simp
  have "sequence_loop v n (accumulated output (previews v) i) i
      = sequence_loop v n (accumulated output (previews v) (Suc i)) (Suc i)"
    using lt le assms(1,4)
    by (subst sequence_loop.simps) (simp add: accumulated_Suc length_previews previews_nth)
  also have "\<dots> = (accumulated output (previews v) k, True)"
    using Suc lt by simp
  finally show ?case .
qed

lemma concat_sep_join: "ps \<noteq> [] \<Longrightarrow> concat (map (\<lambda>p. p @ sep) ps) = join sep ps @ sep"
  by (induction sep ps rule: join.induct) auto

lemma accumulated_0: "accumulated output ps 0 = output"
  by (simp add: accumulated_def)

lemma sequence_formatter_all:
  assumes "\<forall>k < SBValue_GetNumChildren valobj. length (accumulated out (previews valobj) k) \<le> 32"
  shows "sequence_formatter out valobj
      = drop_last_n 2 (accumulated out (previews valobj) (SBValue_GetNumChildren valobj))"
    and "0 < SBValue_GetNumChildren valobj \<Longrightarrow>
      sequence_formatter out valobj = out @ join '', '' (previews valobj)"
proof -
  define ps where "ps = previews valobj"
  define n where "n = SBValue_GetNumChildren valobj"
  have "sequence_loop valobj n (accumulated out ps 0) 0 = (accumulated out ps n, False)"
    unfolding ps_def by (rule loop_all) (use assms in \<open>simp_all add: ps_def n_def\<close>)
  then have f: "sequence_formatter out valobj = drop_last_n 2 (accumulated out ps n)"
    by (simp add: sequence_formatter_def accumulated_0 n_def)
  then show "sequence_formatter out valobj
      = drop_last_n 2 (accumulated out (previews valobj) (SBValue_GetNumChildren valobj))"
    by (simp add: ps_def n_def)
  show "sequence_formatter out valobj = out @ join '', '' (previews valobj)"
    if "0 < SBValue_GetNumChildren valobj"
  proof -
    have "ps \<noteq> []"
      using that by (auto simp: ps_def previews_def SBValue_GetNumChildren_def)
    moreover have "take n ps = ps"
      by (simp add: ps_def n_def length_previews)
    ultimately show ?thesis
      by (simp add: f accumulated_def concat_sep_join drop_last_n_def ps_def)
  qed
qed

lemma sequence_formatter_long:
  assumes "k < SBValue_GetNumChildren valobj"
    and "length (accumulated out (previews valobj) k) > 32"
    and "\<forall>j<k. length (accumulated out (previews valobj) j) \<le> 32"
  shows "sequence_formatter out valobj
      = ''(len: '' @ str_nat (SBValue_GetNumChildren valobj) @ '') ''
        @ accumulated out (previews valobj) k @ ''...''"
proof -
  have "sequence_loop valobj (SBValue_GetNumChildren valobj) (accumulated out (previews valobj) 0) 0
      = (accumulated out (previews valobj) k, True)"
    by (rule loop_long [where k = k]) (use assms in simp_all)
  then show ?thesis
    by (simp add: sequence_formatter_def accumulated_0)
qed

text \<open>
  C4 (amended).  The length test runs before each element is appended and measures the
  whole accumulated text, open token included.  If no test finds more than 32 characters,
  every element is rendered and the trailing separator is cut, with no ellipsis.  If the
  test before element \<open>k\<close> is the first to find more than 32 characters, the result is the
  element count, the text accumulated so far (the open token and the first \<open>k\<close> previews,
  each whole and followed by the separator) and an ellipsis: the previews from \<open>k\<close> on are
  left out.
\<close>

theorem sequence_formatter_threshold:
  "((\<forall>k < SBValue_GetNumChildren valobj. length (accumulated out (previews valobj) k) \<le> 32) \<longrightarrow>
      sequence_formatter out valobj
        = drop_last_n 2 (accumulated out (previews valobj) (SBValue_GetNumChildren valobj))
      \<and> (0 < SBValue_GetNumChildren valobj \<longrightarrow>
           sequence_formatter out valobj = out @ join '', '' (previews valobj)))
   \<and> (\<forall>k < SBValue_GetNumChildren valobj.
        length (accumulated out (previews valobj) k) > 32
        \<and> (\<forall>j<k. length (accumulated out (previews valobj) j) \<le> 32) \<longrightarrow>
        sequence_formatter out valobj
          = ''(len: '' @ str_nat (SBValue_GetNumChildren valobj) @ '') ''
            @ accumulated out (previews valobj) k @ ''...'')"
  using sequence_formatter_all [of valobj out] sequence_formatter_long [of _ valobj out]
  by blast

lemma short_vec_accumulated:
  "accumulated ''vec!['' (previews short_vec) 0 = ''vec![''"
  "accumulated ''vec!['' (previews short_vec) (Suc 0) = ''vec![aaaaaaaaaaaa, ''"
  "accumulated ''vec!['' (previews short_vec) 2 = ''vec![aaaaaaaaaaaa, bbbbbbbbbbbb, ''"
  by (simp_all add: accumulated_def previews_def short_vec_def format_value_def)

lemma wide_array_accumulated:
  "accumulated ''['' (previews wide_array) 0 = ''[''"
  by (simp add: accumulated_def)

theorem sequence_formatter_threshold_witness:
  "sequence_formatter ''vec!['' short_vec = ''(len: 3) vec![aaaaaaaaaaaa, bbbbbbbbbbbb, ...''
   \<and> sequence_formatter ''['' wide_array = ''[0123456789012345678901234567890123456789''"
proof -
  have n3: "SBValue_GetNumChildren short_vec = 3"
    by (simp add: SBValue_GetNumChildren_def short_vec_def)
  have lt: "j < 2 \<longleftrightarrow> j = 0 \<or> j = 1" for j :: nat
    by auto
  have "2 < SBValue_GetNumChildren short_vec \<and>
      length (accumulated ''vec!['' (previews short_vec) 2) > 32
        \<and> (\<forall>j<2. length (accumulated ''vec!['' (previews short_vec) j) \<le> 32)"
    by (simp add: n3 short_vec_accumulated lt)
  then have "sequence_formatter ''vec!['' short_vec
      = ''(len: '' @ str_nat (SBValue_GetNumChildren short_vec) @ '') ''
        @ accumulated ''vec!['' (previews short_vec) 2 @ ''...''"
    using sequence_formatter_threshold [of short_vec "''vec![''"] by blast
  then have a: "sequence_formatter ''vec!['' short_vec = ''(len: 3) vec![aaaaaaaaaaaa, bbbbbbbbbbbb, ...''"
    by (simp add: n3 short_vec_accumulated str_nat.simps digit_char_def)
  have n1: "SBValue_GetNumChildren wide_array = 1"
    by (simp add: SBValue_GetNumChildren_def wide_array_def)
  have "(\<forall>k < SBValue_GetNumChildren wide_array.
          length (accumulated ''['' (previews wide_array) k) \<le> 32)
      \<and> 0 < SBValue_GetNumChildren wide_array"
    by (simp add: n1 wide_array_accumulated)
  then have "sequence_formatter ''['' wide_array = ''['' @ join '', '' (previews wide_array)"
    using sequence_formatter_threshold [of wide_array "''[''"] by blast
  then have b: "sequence_formatter ''['' wide_array = ''[0123456789012345678901234567890123456789''"
    by (simp add: previews_def wide_array_def format_value_def)
  from a b show ?thesis by simp
qed

text \<open>
  C4 as stated fails twice.  Three previews of 25 characters (31 with their separators)
  stay within 32 characters, yet behind the five characters of \<open>vec![\<close> the third is cut
  off with an ellipsis.  One preview of 40 characters exceeds 32, yet it is rendered
  whole with no ellipsis and no count, since no test follows the last element.
\<close>

theorem sequence_formatter_content_counterexample:
  "length (concat (previews short_vec)) = 25
   \<and> length (concat (map (\<lambda>p. p @ '', '') (previews short_vec))) = 31
   \<and> sequence_formatter ''vec!['' short_vec = ''(len: 3) vec![aaaaaaaaaaaa, bbbbbbbbbbbb, ...''
   \<and> length (concat (previews wide_array)) = 40
   \<and> sequence_formatter ''['' wide_array = ''[0123456789012345678901234567890123456789''"
  by (simp add: previews_def short_vec_def wide_array_def format_value_def sequence_formatter_def
      SBValue_GetNumChildren_def SBValue_GetChildAtIndex_def sequence_loop.simps drop_last_n_def
      str_nat.simps digit_char_def)

subsection \<open>Decimal numerals\<close>

lemma below_ten:
  "d < 10 \<Longrightarrow> d = 0 \<or> d = 1 \<or> d = 2 \<or> d = 3 \<or> d = 4 \<or> d = 5 \<or> d = 6 \<or> d = 7 \<or> d = 8 \<or> d = (9::nat)"
  by arith

lemma digit_char_decimal: "d < 10 \<Longrightarrow> is_decimal (digit_char d)"
  by (drule below_ten) (auto simp: digit_char_def is_decimal_def)

lemma digit_val_digit_char: "d < 10 \<Longrightarrow> digit_val (digit_char d) = d"
  by (drule below_ten) (auto simp: digit_char_def digit_val_def)

lemma str_nat_not_Nil: "str_nat n \<noteq> []"
  by (subst str_nat.simps) simp

lemma str_nat_decimal: "list_all is_decimal (str_nat n)"
proof (induction n rule: str_nat.induct)
  case (1 n)
  show ?case
  proof (cases "n < 10")
    case True
    then show ?thesis by (subst str_nat.simps) (simp add: digit_char_decimal)
  next
    case False
    then show ?thesis using 1 by (subst str_nat.simps) (simp add: digit_char_decimal)
  qed
qed

lemma nat_of_digits_snoc: "nat_of_digits (s @ [c]) = 10 * nat_of_digits s + digit_val c"
  by (simp add: nat_of_digits_def)

lemma nat_of_digits_str_nat: "nat_of_digits (str_nat n) = n"
proof (induction n rule: str_nat.induct)
  case (1 n)
  show ?case
  proof (cases "n < 10")
    case True
    then show ?thesis
      by (subst str_nat.simps) (simp add: nat_of_digits_def digit_val_digit_char)
  next
    case False
    then show ?thesis using 1
      by (subst str_nat.simps) (simp add: nat_of_digits_snoc digit_val_digit_char)
  qed
qed


subsection \<open>Numeric type names\<close>

lemma matches_numeric_name_str_nat:
  "c \<in> set ''iuf'' \<Longrightarrow> matches_numeric_name (c # str_nat w)"
  by (simp add: matches_numeric_name_def str_nat_not_Nil str_nat_decimal)

text \<open>
  C2.  For a descriptor whose tag the table classifies as numeric, the resolved name is
  one of the letters \<open>i\<close>, \<open>u\<close>, \<open>f\<close> followed by the decimal numeral of 8 times the byte
  size: it has the form \<open>^[iuf]\d+$\<close> and its width is exactly 8 times the byte size.  The
  letter is \<open>f\<close> for a tag from half to long double, and else \<open>i\<close> or \<open>u\<close> by the signed
  column.  The table has 34 rows, one for each of the tags 0 to 33 of the debugger's
  enumeration, so the resolver answers for every one of them, and the rows 22 to 25
  (half, float, double, long double there) are numeric.
\<close>

theorem numeric_type_name:
  "(SBType_GetBasicType type < length NUM_TYPE_MAP
      \<and> fst (NUM_TYPE_MAP ! SBType_GetBasicType type) \<longrightarrow>
      (\<exists>name.
         type_name_from_type lldb type = Inr name
         \<and> name =
             (if eBasicTypeHalf lldb \<le> SBType_GetBasicType type
                 \<and> SBType_GetBasicType type \<le> eBasicTypeLongDouble lldb then CHR ''f''
              else if snd (NUM_TYPE_MAP ! SBType_GetBasicType type) then CHR ''i''
              else CHR ''u'') # str_nat (8 * SBType_GetByteSize type)
         \<and> matches_numeric_name name
         \<and> numeric_name_width name = 8 * SBType_GetByteSize type))
   \<and> length NUM_TYPE_MAP = 34
   \<and> (SBType_GetBasicType type < 34 \<longleftrightarrow> (\<exists>name. type_name_from_type lldb type = Inr name))
   \<and> list_all (\<lambda>tag. NUM_TYPE_MAP ! tag = (True, True)) [22, 23, 24, 25]"
proof -
  have len: "length NUM_TYPE_MAP = 34"
    by (simp add: NUM_TYPE_MAP_def)
  have numeric: "\<exists>name.
         type_name_from_type lldb type = Inr name
         \<and> name =
             (if eBasicTypeHalf lldb \<le> SBType_GetBasicType type
                 \<and> SBType_GetBasicType type \<le> eBasicTypeLongDouble lldb then CHR ''f''
              else if snd (NUM_TYPE_MAP ! SBType_GetBasicType type) then CHR ''i''
              else CHR ''u'') # str_nat (8 * SBType_GetByteSize type)
         \<and> matches_numeric_name name
         \<and> numeric_name_width name = 8 * SBType_GetByteSize type"
    if lt: "SBType_GetBasicType type < length NUM_TYPE_MAP"
      and num: "fst (NUM_TYPE_MAP ! SBType_GetBasicType type)"
  proof -
    obtain signed where row: "NUM_TYPE_MAP ! SBType_GetBasicType type = (True, signed)"
      using num by (cases "NUM_TYPE_MAP ! SBType_GetBasicType type") auto
    define c where "c = (if eBasicTypeHalf lldb \<le> SBType_GetBasicType type
                 \<and> SBType_GetBasicType type \<le> eBasicTypeLongDouble lldb then CHR ''f''
              else if signed then CHR ''i'' else CHR ''u'')"
    have c: "c \<in> set ''iuf''"
      by (simp add: c_def)
    have "type_name_from_type lldb type = Inr (c # str_nat (8 * SBType_GetByteSize type))"
      using lt by (simp add: type_name_from_type_def Let_def row c_def mult.commute)
    moreover have "matches_numeric_name (c # str_nat (8 * SBType_GetByteSize type))"
      using c by (rule matches_numeric_name_str_nat)
    moreover have "numeric_name_width (c # str_nat (8 * SBType_GetByteSize type))
        = 8 * SBType_GetByteSize type"
      by (simp add: numeric_name_width_def nat_of_digits_str_nat)
    ultimately show ?thesis
      by (simp add: row c_def)
  qed
  have total: "SBType_GetBasicType type < 34 \<longleftrightarrow> (\<exists>name. type_name_from_type lldb type = Inr name)"
    by (auto simp: type_name_from_type_def len Let_def split: prod.splits)
  have floats: "list_all (\<lambda>tag. NUM_TYPE_MAP ! tag = (True, True)) [22, 23, 24, 25]"
    by (simp add: NUM_TYPE_MAP_def)
  show ?thesis
    using numeric len total floats by blast
qed

theorem numeric_type_name_witness:
  "type_name_from_type \<lparr>eBasicTypeHalf = 22, eBasicTypeLongDouble = 25\<rparr> (numeric_type 23 4) = Inr ''f32''
   \<and> matches_numeric_name ''f32'' \<and> numeric_name_width ''f32'' = 32"
proof -
  have tag: "SBType_GetBasicType (numeric_type 23 4) = 23"
    and size: "SBType_GetByteSize (numeric_type 23 4) = 4"
    by (simp_all add: numeric_type_def SBType_GetBasicType_def SBType_GetByteSize_def)
  have row: "NUM_TYPE_MAP ! 23 = (True, True)" and len: "length NUM_TYPE_MAP = 34"
    by (simp_all add: NUM_TYPE_MAP_def)
  have s: "str_nat 32 = ''32''"
    by (simp add: str_nat.simps digit_char_def)
  have "SBType_GetBasicType (numeric_type 23 4) < length NUM_TYPE_MAP
      \<and> fst (NUM_TYPE_MAP ! SBType_GetBasicType (numeric_type 23 4))"
    by (simp add: tag row len)
  then have "\<exists>name.
      type_name_from_type \<lparr>eBasicTypeHalf = 22, eBasicTypeLongDouble = 25\<rparr> (numeric_type 23 4) = Inr name
      \<and> name = CHR ''f'' # str_nat (8 * 4)
      \<and> matches_numeric_name name \<and> numeric_name_width name = 8 * 4"
    using numeric_type_name [of "numeric_type 23 4" "\<lparr>eBasicTypeHalf = 22, eBasicTypeLongDouble = 25\<rparr>"]
    by (simp add: tag size row)
  then show ?thesis
    by (auto simp: s matches_numeric_name_def numeric_name_width_def)
qed

subsection \<open>Children of the containers\<close>






lemma not_negative: "0 \<le> i \<Longrightarrow> \<not> int b + i * int s < 0" "0 \<le> i \<Longrightarrow> \<not> int b + i < 0"
  by (simp_all add: not_less add_nonneg_nonneg)

lemma create_below:
  assumes "0 \<le> a" "a < 2 ^ 64"
  shows "CreateValueFromAddress p name a t
      = Inr (if SBValue_IsValid p \<and> SBType_IsValid t then CreatedValue name a t False else NoValue)"
  using assms by (simp add: CreateValueFromAddress_def)

lemma create_overflow: "2 ^ 64 \<le> a \<Longrightarrow> CreateValueFromAddress p name a t = Inl OverflowError"
  by (simp add: CreateValueFromAddress_def)

lemma element_address:
  "0 \<le> i \<Longrightarrow> 0 \<le> int b + i * int s" "0 \<le> i \<Longrightarrow> 0 \<le> int b + i"
  by (simp_all add: add_nonneg_nonneg)


lemma field_valid: "SBValue_IsValid (field name n cs)" "SBValue_GetValueAsUnsigned (field name n cs) = n"
  by (simp_all add: field_def)

lemma named_type_valid: "SBType_IsValid (named_type name n)" "SBType_GetByteSize (named_type name n) = n"
  by (simp_all add: named_type_def SBType_GetByteSize_def)

lemma str_int_digit: "str_int 1 = ''1''" "str_int 2 = ''2''"
  by (simp_all add: str_int_def str_nat.simps digit_char_def)


lemma vec_layout_fields:
  "SBValue_IsValid (vec_layout name a n)"
  "SBValue_GetChildMemberWithName (vec_layout name a n) ''len'' = field ''len'' n []"
  "vec_data_pointer (vec_layout name a n) = field ''pointer'' a []"
  "SBValue_GetTypeName (vec_layout name a n) = name"
  by (simp_all add: vec_layout_def field_def SBValue_GetChildMemberWithName_def
      SBValue_GetName_def vec_data_pointer_def SBValue_GetTypeName_def SBType_GetName_def
      named_type_def)

lemma vec_element_name_u32:
  "vec_element_name ''alloc::vec::Vec<u32,alloc::alloc::Global>'' = ''u32''"
  by (simp add: vec_element_name_def partition_str_def)


text \<open>
  C3 (amended).  The vector provider takes its length from the field \<open>len\<close>, its data
  pointer from the end of the chain \<open>buf\<close>, \<open>inner\<close>, \<open>ptr\<close>, \<open>pointer\<close>, \<open>pointer\<close>, and its
  element type from the target by the name cut out of the type name.  For \<open>0 \<le> i < N\<close>
  it asks the debugger for a value named \<open>[i]\<close> at the address \<open>base + i * s\<close> with that
  element type: below \<open>2^64\<close> the answer is that value when the data pointer and the
  element type are valid, and an invalid value otherwise; from \<open>2^64\<close> on the call
  raises OverflowError.  For every other index, \<open>N\<close> and \<open>-1\<close> among them, the answer
  is None.
\<close>

theorem vec_child_at_index:
  "(SBValue_IsValid valobj \<longrightarrow>
      MSVCStdVecSyntheticProvider_update target valobj
        = Inr \<lparr>vec_length = SBValue_GetValueAsUnsigned (SBValue_GetChildMemberWithName valobj ''len''),
               vec_data_ptr =
                 SBValue_GetChildMemberWithName
                   (SBValue_GetChildMemberWithName
                      (SBValue_GetChildMemberWithName
                         (SBValue_GetChildMemberWithName
                            (SBValue_GetChildMemberWithName valobj ''buf'') ''inner'') ''ptr'')
                      ''pointer'') ''pointer'',
               vec_element_type = target (vec_element_name (SBValue_GetTypeName valobj)),
               vec_element_size =
                 SBType_GetByteSize (target (vec_element_name (SBValue_GetTypeName valobj)))\<rparr>)
   \<and> (0 \<le> i \<and> i < int (vec_length self)
        \<and> int (SBValue_GetValueAsUnsigned (vec_data_ptr self)) + i * int (vec_element_size self) < 2 ^ 64 \<longrightarrow>
        MSVCStdVecSyntheticProvider_get_child_at_index self i
          = Inr (Some (if SBValue_IsValid (vec_data_ptr self) \<and> SBType_IsValid (vec_element_type self)
                       then CreatedValue (''['' @ str_int i @ '']'')
                              (int (SBValue_GetValueAsUnsigned (vec_data_ptr self))
                                 + i * int (vec_element_size self))
                              (vec_element_type self) False
                       else NoValue)))
   \<and> (0 \<le> i \<and> i < int (vec_length self)
        \<and> 2 ^ 64 \<le> int (SBValue_GetValueAsUnsigned (vec_data_ptr self)) + i * int (vec_element_size self) \<longrightarrow>
        MSVCStdVecSyntheticProvider_get_child_at_index self i = Inl OverflowError)
   \<and> (\<not> (0 \<le> i \<and> i < int (vec_length self)) \<longrightarrow>
        MSVCStdVecSyntheticProvider_get_child_at_index self i = Inr None)
   \<and> MSVCStdVecSyntheticProvider_get_child_at_index self (int (vec_length self)) = Inr None
   \<and> MSVCStdVecSyntheticProvider_get_child_at_index self (- 1) = Inr None"
proof -
  have update: "MSVCStdVecSyntheticProvider_update target valobj
        = Inr \<lparr>vec_length = SBValue_GetValueAsUnsigned (SBValue_GetChildMemberWithName valobj ''len''),
               vec_data_ptr =
                 SBValue_GetChildMemberWithName
                   (SBValue_GetChildMemberWithName
                      (SBValue_GetChildMemberWithName
                         (SBValue_GetChildMemberWithName
                            (SBValue_GetChildMemberWithName valobj ''buf'') ''inner'') ''ptr'')
                      ''pointer'') ''pointer'',
               vec_element_type = target (vec_element_name (SBValue_GetTypeName valobj)),
               vec_element_size =
                 SBType_GetByteSize (target (vec_element_name (SBValue_GetTypeName valobj)))\<rparr>"
    if "SBValue_IsValid valobj"
    using that by (simp add: MSVCStdVecSyntheticProvider_update_def SBValue_GetTarget_def vec_data_pointer_def Let_def)
  have below: "MSVCStdVecSyntheticProvider_get_child_at_index self i
          = Inr (Some (if SBValue_IsValid (vec_data_ptr self) \<and> SBType_IsValid (vec_element_type self)
                       then CreatedValue (''['' @ str_int i @ '']'')
                              (int (SBValue_GetValueAsUnsigned (vec_data_ptr self))
                                 + i * int (vec_element_size self))
                              (vec_element_type self) False
                       else NoValue))"
    if "0 \<le> i" "i < int (vec_length self)"
      "int (SBValue_GetValueAsUnsigned (vec_data_ptr self)) + i * int (vec_element_size self) < 2 ^ 64"
    using that
    by (simp add: MSVCStdVecSyntheticProvider_get_child_at_index_def Let_def create_below
        element_address raise_bind_def)
  have over: "MSVCStdVecSyntheticProvider_get_child_at_index self i = Inl OverflowError"
    if "0 \<le> i" "i < int (vec_length self)"
      "2 ^ 64 \<le> int (SBValue_GetValueAsUnsigned (vec_data_ptr self)) + i * int (vec_element_size self)"
    using that
    by (simp add: MSVCStdVecSyntheticProvider_get_child_at_index_def Let_def create_overflow
        raise_bind_def)
  have outside: "MSVCStdVecSyntheticProvider_get_child_at_index self j = Inr None"
    if "\<not> (0 \<le> j \<and> j < int (vec_length self))" for j
    using that by (simp add: MSVCStdVecSyntheticProvider_get_child_at_index_def)
  have "MSVCStdVecSyntheticProvider_get_child_at_index self (int (vec_length self)) = Inr None"
    "MSVCStdVecSyntheticProvider_get_child_at_index self (- 1) = Inr None"
    by (simp_all add: outside)
  then show ?thesis
    using update below over outside [of i] by blast
qed

theorem vec_child_at_index_witness:
  "MSVCStdVecSyntheticProvider_update example_target vec_u32
     = Inr \<lparr>vec_length = 3, vec_data_ptr = field ''pointer'' 4096 [],
            vec_element_type = named_type ''u32'' 4, vec_element_size = 4\<rparr>
   \<and> MSVCStdVecSyntheticProvider_get_child_at_index
        \<lparr>vec_length = 3, vec_data_ptr = field ''pointer'' 4096 [],
         vec_element_type = named_type ''u32'' 4, vec_element_size = 4\<rparr> 1
      = Inr (Some (CreatedValue ''[1]'' 4100 (named_type ''u32'' 4) False))
   \<and> MSVCStdVecSyntheticProvider_get_child_at_index
        \<lparr>vec_length = 3, vec_data_ptr = field ''pointer'' 4096 [],
         vec_element_type = named_type ''u32'' 4, vec_element_size = 4\<rparr> 3 = Inr None
   \<and> MSVCStdVecSyntheticProvider_get_child_at_index
        \<lparr>vec_length = 3, vec_data_ptr = field ''pointer'' 4096 [],
         vec_element_type = named_type ''u32'' 4, vec_element_size = 4\<rparr> (- 1) = Inr None"
proof -
  define self where "self = \<lparr>vec_length = 3, vec_data_ptr = field ''pointer'' 4096 [],
       vec_element_type = named_type ''u32'' 4, vec_element_size = 4\<rparr>"
  have chain: "SBValue_GetChildMemberWithName
                   (SBValue_GetChildMemberWithName
                      (SBValue_GetChildMemberWithName
                         (SBValue_GetChildMemberWithName
                            (SBValue_GetChildMemberWithName vec_u32 ''buf'') ''inner'') ''ptr'')
                      ''pointer'') ''pointer'' = field ''pointer'' 4096 []"
    using vec_layout_fields(3) [of "''alloc::vec::Vec<u32,alloc::alloc::Global>''" 4096 3]
    by (simp add: vec_data_pointer_def vec_u32_def)
  have a: "MSVCStdVecSyntheticProvider_update example_target vec_u32 = Inr self"
    using vec_child_at_index [of vec_u32 example_target 1 self]
    by (simp add: chain)
      (simp add: vec_u32_def vec_layout_fields vec_element_name_u32 example_target_def
        named_type_valid field_valid self_def)
  have "0 \<le> (1::int) \<and> 1 < int (vec_length self)
      \<and> int (SBValue_GetValueAsUnsigned (vec_data_ptr self)) + 1 * int (vec_element_size self) < 2 ^ 64"
    by (simp add: self_def field_valid)
  then have "MSVCStdVecSyntheticProvider_get_child_at_index self 1
          = Inr (Some (if SBValue_IsValid (vec_data_ptr self) \<and> SBType_IsValid (vec_element_type self)
                       then CreatedValue (''['' @ str_int 1 @ '']'')
                              (int (SBValue_GetValueAsUnsigned (vec_data_ptr self))
                                 + 1 * int (vec_element_size self))
                              (vec_element_type self) False
                       else NoValue))"
    using vec_child_at_index [of vec_u32 example_target 1 self] by blast
  then have b: "MSVCStdVecSyntheticProvider_get_child_at_index self 1
      = Inr (Some (CreatedValue ''[1]'' 4100 (named_type ''u32'' 4) False))"
    by (simp add: self_def field_valid named_type_valid str_int_digit)
  have c: "MSVCStdVecSyntheticProvider_get_child_at_index self 3 = Inr None"
    "MSVCStdVecSyntheticProvider_get_child_at_index self (- 1) = Inr None"
    using vec_child_at_index [of vec_u32 example_target 3 self]
    by (simp_all add: self_def)
  from a b c show ?thesis
    by (simp add: self_def)
qed

text \<open>
  C3 as stated fails in range when the address no longer fits 64 bits.  A vector whose
  fields hold the data pointer \<open>2^64 - 1\<close> and the length 2 has the valid index 1, for
  which the address is \<open>2^64 + 3\<close>: the call that is to make the child raises
  OverflowError, and there is no child.
\<close>

theorem vec_child_at_index_overflow_counterexample:
  "MSVCStdVecSyntheticProvider_update example_target vec_at_last_address
     = Inr \<lparr>vec_length = 2, vec_data_ptr = field ''pointer'' 18446744073709551615 [],
            vec_element_type = named_type ''u32'' 4, vec_element_size = 4\<rparr>
   \<and> MSVCStdVecSyntheticProvider_get_child_at_index
        \<lparr>vec_length = 2, vec_data_ptr = field ''pointer'' 18446744073709551615 [],
         vec_element_type = named_type ''u32'' 4, vec_element_size = 4\<rparr> 1
      = Inl OverflowError"
  by (simp add: MSVCStdVecSyntheticProvider_update_def SBValue_GetTarget_def vec_at_last_address_def vec_layout_fields
      vec_element_name_u32 example_target_def Let_def field_valid named_type_valid
      MSVCStdVecSyntheticProvider_get_child_at_index_def CreateValueFromAddress_def
      raise_bind_def)

text \<open>
  C9 at a vector of pairs.  The provider cuts the type name at its first comma, which
  lies inside the parameter \<open>tuple$<u8,u16>\<close>: the name it looks up is \<open>tuple$<u8\<close>, the
  type system does not know it, and the displayed type is \<open>Vec<>\<close> with elements of size 0.
  The first top-level comma comes after the whole parameter.
\<close>

theorem vec_element_name_nested_comma:
  "vec_element_name (SBValue_GetTypeName vec_of_pairs) = ''tuple$<u8''
   \<and> first_generic_parameter (SBValue_GetTypeName vec_of_pairs) = ''tuple$<u8,u16>''
   \<and> MSVCStdVecSyntheticProvider_update example_target vec_of_pairs
      = Inr \<lparr>vec_length = 3, vec_data_ptr = field ''pointer'' 4096 [],
             vec_element_type = invalid_type, vec_element_size = 0\<rparr>
   \<and> MSVCStdVecSyntheticProvider_get_type_name
        \<lparr>vec_length = 3, vec_data_ptr = field ''pointer'' 4096 [],
         vec_element_type = invalid_type, vec_element_size = 0\<rparr> = ''Vec<>''"
proof -
  have name: "SBValue_GetTypeName vec_of_pairs = ''alloc::vec::Vec<tuple$<u8,u16>,alloc::alloc::Global>''"
    by (simp add: vec_of_pairs_def vec_layout_fields)
  have cut: "vec_element_name ''alloc::vec::Vec<tuple$<u8,u16>,alloc::alloc::Global>'' = ''tuple$<u8''"
    by (simp add: vec_element_name_def partition_str_def)
  have top: "first_generic_parameter ''alloc::vec::Vec<tuple$<u8,u16>,alloc::alloc::Global>''
      = ''tuple$<u8,u16>''"
    by (simp add: first_generic_parameter_def partition_str_def)
  have upd: "MSVCStdVecSyntheticProvider_update example_target vec_of_pairs
      = Inr \<lparr>vec_length = 3, vec_data_ptr = field ''pointer'' 4096 [],
             vec_element_type = invalid_type, vec_element_size = 0\<rparr>"
    by (simp add: MSVCStdVecSyntheticProvider_update_def SBValue_GetTarget_def Let_def name cut)
      (simp add: vec_of_pairs_def vec_layout_fields field_valid example_target_def
        SBType_GetByteSize_def invalid_type_def)
  have shown: "MSVCStdVecSyntheticProvider_get_type_name
        \<lparr>vec_length = 3, vec_data_ptr = field ''pointer'' 4096 [],
         vec_element_type = invalid_type, vec_element_size = 0\<rparr> = ''Vec<>''"
    by (simp add: MSVCStdVecSyntheticProvider_get_type_name_def SBType_GetName_def invalid_type_def)
  show ?thesis
    using cut top upd shown by (simp add: name)
qed

subsection \<open>String summaries\<close>

lemma utf8_rest_shorter: "bs \<noteq> [] \<Longrightarrow> length (drop (snd (utf8_next bs)) bs) < length bs"
  using utf8_next_consumes [of bs] by simp

lemma utf8_replace_total: "\<exists>t. utf8_decode ''replace'' bs = Inr t"
proof (induction bs rule: length_induct)
  case (1 bs)
  show ?case
  proof (cases "bs = []")
    case True
    then show ?thesis by (subst utf8_decode.simps) simp
  next
    case False
    obtain rest where "utf8_decode ''replace'' (drop (snd (utf8_next bs)) bs) = Inr rest"
      using 1 utf8_rest_shorter [OF False] by blast
    then show ?thesis
      using False
      by (subst utf8_decode.simps) (simp add: raise_bind_def split: option.splits)
  qed
qed

lemma utf8_strict_agrees:
  "utf8_decode ''strict'' bs = Inr t \<Longrightarrow> utf8_decode ''replace'' bs = Inr t"
proof (induction bs arbitrary: t rule: length_induct)
  case (1 bs)
  show ?case
  proof (cases "bs = []")
    case True
    then show ?thesis
      using "1.prems" by (simp add: utf8_decode.simps [of _ "[]"])
  next
    case False
    let ?rest = "drop (snd (utf8_next bs)) bs"
    from "1.prems" False obtain c r where
      c: "fst (utf8_next bs) = Some c" and r: "utf8_decode ''strict'' ?rest = Inr r" and t: "t = c # r"
      by (subst (asm) utf8_decode.simps)
        (auto simp: raise_bind_def split: option.splits sum.splits)
    have "utf8_decode ''replace'' ?rest = Inr r"
      using 1 utf8_rest_shorter [OF False] r by blast
    then show ?thesis
      using False c t by (subst utf8_decode.simps) (simp add: raise_bind_def)
  qed
qed

lemma utf8_strict_fails:
  "utf8_decode ''strict'' bs = Inl e \<Longrightarrow>
   e = UnicodeDecodeError \<and> (\<exists>t. utf8_decode ''replace'' bs = Inr t \<and> 65533 \<in> set t)"
proof (induction bs rule: length_induct)
  case (1 bs)
  show ?case
  proof (cases "bs = []")
    case True
    then show ?thesis
      using "1.prems" by (simp add: utf8_decode.simps [of _ "[]"])
  next
    case False
    let ?rest = "drop (snd (utf8_next bs)) bs"
    obtain r where r: "utf8_decode ''replace'' ?rest = Inr r"
      using utf8_replace_total by blast
    show ?thesis
    proof (cases "fst (utf8_next bs)")
      case None
      have "e = UnicodeDecodeError"
        using "1.prems" False None by (subst (asm) utf8_decode.simps) simp
      moreover have "utf8_decode ''replace'' bs = Inr (65533 # r)"
        using False None r by (subst utf8_decode.simps) (simp add: raise_bind_def)
      ultimately show ?thesis by simp
    next
      case (Some c)
      have "utf8_decode ''strict'' ?rest = Inl e"
        using "1.prems" False Some
        by (subst (asm) utf8_decode.simps) (auto simp: raise_bind_def split: sum.splits)
      then have "e = UnicodeDecodeError \<and> (\<exists>t. utf8_decode ''replace'' ?rest = Inr t \<and> 65533 \<in> set t)"
        using 1 utf8_rest_shorter [OF False] by blast
      moreover have "utf8_decode ''replace'' bs = Inr (c # r)"
        using False Some r by (subst utf8_decode.simps) (simp add: raise_bind_def)
      ultimately show ?thesis
        using r by auto
    qed
  qed
qed

lemma decode_replace:
  "\<exists>decoded. bytes_decode data ''utf8'' ''replace'' = Inr decoded
     \<and> (\<forall>t. bytes_decode data ''utf8'' ''strict'' = Inr t \<longrightarrow> decoded = t)
     \<and> ((\<exists>e. bytes_decode data ''utf8'' ''strict'' = Inl e) \<longrightarrow> 65533 \<in> set decoded)"
proof -
  obtain decoded where decoded: "utf8_decode ''replace'' (map of_char data) = Inr decoded"
    using utf8_replace_total by blast
  have "decoded = t" if "utf8_decode ''strict'' (map of_char data) = Inr t" for t
    using utf8_strict_agrees [OF that] decoded by simp
  moreover have "65533 \<in> set decoded" if "utf8_decode ''strict'' (map of_char data) = Inl e" for e
    using utf8_strict_fails [OF that] decoded by auto
  ultimately show ?thesis
    using decoded by (auto simp: bytes_decode_def)
qed

text \<open>
  C7.  For a borrowed string (fields \<open>data_ptr\<close> and \<open>length\<close>) and for an owned string
  (the vector \<open>vec\<close> with its length and data pointer): with length zero the summary is
  the empty string and memory is not read.  With the bytes readable the summary does not
  fail, whatever the bytes: it is their decoded decoded as UTF-8 with the handler
  \<open>replace\<close>, which is the very decoded of the strict decoder where that one succeeds, and
  holds the replacement character U+FFFD where the strict decoder fails on an ill-formed
  sequence.  With the read failing the summary raises an exception that carries the
  message of the failed read.
\<close>

theorem string_summary:
  "(SBValue_GetValueAsUnsigned (SBValue_GetChildMemberWithName valobj ''length'') = 0 \<longrightarrow>
      MSVCstrSummaryProvider memory valobj = Inr [])
   \<and> (\<forall>data.
        SBValue_GetValueAsUnsigned (SBValue_GetChildMemberWithName valobj ''length'') \<noteq> 0
        \<and> SBValue_GetProcess memory (SBValue_GetChildMemberWithName valobj ''data_ptr'')
            (SBValue_GetValueAsUnsigned (SBValue_GetChildMemberWithName valobj ''data_ptr''))
            (SBValue_GetValueAsUnsigned (SBValue_GetChildMemberWithName valobj ''length'')) = Inr data \<longrightarrow>
        (\<exists>decoded. MSVCstrSummaryProvider memory valobj = Inr decoded
           \<and> bytes_decode data ''utf8'' ''replace'' = Inr decoded
           \<and> (\<forall>t. bytes_decode data ''utf8'' ''strict'' = Inr t \<longrightarrow> decoded = t)
           \<and> ((\<exists>e. bytes_decode data ''utf8'' ''strict'' = Inl e) \<longrightarrow> 65533 \<in> set decoded)))
   \<and> (\<forall>msg.
        SBValue_GetValueAsUnsigned (SBValue_GetChildMemberWithName valobj ''length'') \<noteq> 0
        \<and> SBValue_GetProcess memory (SBValue_GetChildMemberWithName valobj ''data_ptr'')
            (SBValue_GetValueAsUnsigned (SBValue_GetChildMemberWithName valobj ''data_ptr''))
            (SBValue_GetValueAsUnsigned (SBValue_GetChildMemberWithName valobj ''length'')) = Inl msg \<longrightarrow>
        MSVCstrSummaryProvider memory valobj = Inl (Exception ''ReadMemory error: %s'' msg))
   \<and> (SBValue_GetValueAsUnsigned
         (SBValue_GetChildMemberWithName (SBValue_GetChildMemberWithName valobj ''vec'') ''len'') = 0 \<longrightarrow>
      StdStringSummaryProvider memory valobj = Inr [])
   \<and> (\<forall>data.
        SBValue_GetValueAsUnsigned
          (SBValue_GetChildMemberWithName (SBValue_GetChildMemberWithName valobj ''vec'') ''len'') \<noteq> 0
        \<and> SBValue_GetProcess memory (vec_data_pointer (SBValue_GetChildMemberWithName valobj ''vec''))
            (SBValue_GetValueAsUnsigned (vec_data_pointer (SBValue_GetChildMemberWithName valobj ''vec'')))
            (SBValue_GetValueAsUnsigned
               (SBValue_GetChildMemberWithName (SBValue_GetChildMemberWithName valobj ''vec'') ''len''))
          = Inr data \<longrightarrow>
        (\<exists>decoded. StdStringSummaryProvider memory valobj = Inr decoded
           \<and> bytes_decode data ''utf8'' ''replace'' = Inr decoded
           \<and> (\<forall>t. bytes_decode data ''utf8'' ''strict'' = Inr t \<longrightarrow> decoded = t)
           \<and> ((\<exists>e. bytes_decode data ''utf8'' ''strict'' = Inl e) \<longrightarrow> 65533 \<in> set decoded)))
   \<and> (\<forall>msg.
        SBValue_GetValueAsUnsigned
          (SBValue_GetChildMemberWithName (SBValue_GetChildMemberWithName valobj ''vec'') ''len'') \<noteq> 0
        \<and> SBValue_GetProcess memory (vec_data_pointer (SBValue_GetChildMemberWithName valobj ''vec''))
            (SBValue_GetValueAsUnsigned (vec_data_pointer (SBValue_GetChildMemberWithName valobj ''vec'')))
            (SBValue_GetValueAsUnsigned
               (SBValue_GetChildMemberWithName (SBValue_GetChildMemberWithName valobj ''vec'') ''len''))
          = Inl msg \<longrightarrow>
        StdStringSummaryProvider memory valobj = Inl (Exception ''ReadMemory error: %s'' msg))"
proof -
  have read: "(\<exists>decoded. bytes_decode data ''utf8'' ''replace'' = Inr decoded \<and> r = Inr decoded
           \<and> (\<forall>t. bytes_decode data ''utf8'' ''strict'' = Inr t \<longrightarrow> decoded = t)
           \<and> ((\<exists>e. bytes_decode data ''utf8'' ''strict'' = Inl e) \<longrightarrow> 65533 \<in> set decoded))"
    if "r = bytes_decode data ''utf8'' ''replace''" for r data
    using decode_replace [of data] that by auto
  show ?thesis
    by (auto simp: MSVCstrSummaryProvider_def StdStringSummaryProvider_def Let_def
        dest!: read [OF refl, THEN exE] intro: read)
      (use decode_replace in \<open>fastforce+\<close>)
qed

lemma str_layout_fields:
  "SBValue_GetChildMemberWithName (str_layout a n) ''data_ptr'' = field ''data_ptr'' a []"
  "SBValue_GetChildMemberWithName (str_layout a n) ''length'' = field ''length'' n []"
  by (simp_all add: str_layout_def field_def SBValue_GetChildMemberWithName_def SBValue_GetName_def)

lemma string_layout_fields:
  "SBValue_GetChildMemberWithName (SBValue_GetChildMemberWithName (string_layout a n) ''vec'') ''len''
     = field ''len'' n []"
  "vec_data_pointer (SBValue_GetChildMemberWithName (string_layout a n) ''vec'') = field ''pointer'' a []"
  by (simp_all add: string_layout_def field_def SBValue_GetChildMemberWithName_def SBValue_GetName_def
      vec_data_pointer_def)

lemma string_field: "SBValue_GetValueAsUnsigned (field name n cs) = n"
  "SBValue_GetProcess memory (field name n cs) = memory"
  by (simp_all add: field_def SBValue_GetProcess_def)

lemma example_memory_reads:
  "example_memory 8192 2 = Inr ''hi''"
  "example_memory 12288 3 = Inr [CHR ''h'', CHR 0xFF, CHR ''i'']"
  "example_memory 16384 2 = Inr [CHR 0xC3, CHR 0xA9]"
  "example_memory 4096 5 = Inl ''memory read failed''"
  by (simp_all add: example_memory_def)

lemma example_decodings:
  "bytes_decode ''hi'' ''utf8'' ''replace'' = Inr [104, 105]"
  "bytes_decode [CHR ''h'', CHR 0xFF, CHR ''i''] ''utf8'' ''replace'' = Inr [104, 65533, 105]"
  "bytes_decode [CHR ''h'', CHR 0xFF, CHR ''i''] ''utf8'' ''strict'' = Inl UnicodeDecodeError"
  "bytes_decode [CHR 0xC3, CHR 0xA9] ''utf8'' ''replace'' = Inr [233]"
  by (simp_all add: bytes_decode_def utf8_decode.simps utf8_next_def is_continuation_def
      second_byte_ok_def raise_bind_def)

theorem string_summary_witness:
  "MSVCstrSummaryProvider example_memory (str_layout 8192 0) = Inr []
   \<and> MSVCstrSummaryProvider example_memory (str_layout 8192 2) = Inr [104, 105]
   \<and> MSVCstrSummaryProvider example_memory (str_layout 12288 3) = Inr [104, 65533, 105]
   \<and> bytes_decode [CHR ''h'', CHR 0xFF, CHR ''i''] ''utf8'' ''strict'' = Inl UnicodeDecodeError
   \<and> MSVCstrSummaryProvider example_memory (str_layout 16384 2) = Inr [233]
   \<and> MSVCstrSummaryProvider example_memory (str_layout 4096 5)
      = Inl (Exception ''ReadMemory error: %s'' ''memory read failed'')
   \<and> StdStringSummaryProvider example_memory (string_layout 8192 0) = Inr []
   \<and> StdStringSummaryProvider example_memory (string_layout 12288 3) = Inr [104, 65533, 105]
   \<and> StdStringSummaryProvider example_memory (string_layout 16384 2) = Inr [233]
   \<and> StdStringSummaryProvider example_memory (string_layout 4096 5)
      = Inl (Exception ''ReadMemory error: %s'' ''memory read failed'')"
proof -
  note layout = str_layout_fields string_layout_fields string_field example_memory_reads
  have a: "MSVCstrSummaryProvider example_memory (str_layout 8192 0) = Inr []"
    using string_summary [of "str_layout 8192 0" example_memory] by (simp add: layout)
  have b: "MSVCstrSummaryProvider example_memory (str_layout 8192 2) = Inr [104, 105]"
    using string_summary [of "str_layout 8192 2" example_memory]
    by (auto simp: layout example_decodings)
  have c: "MSVCstrSummaryProvider example_memory (str_layout 12288 3) = Inr [104, 65533, 105]"
    using string_summary [of "str_layout 12288 3" example_memory]
    by (auto simp: layout example_decodings)
  have d: "MSVCstrSummaryProvider example_memory (str_layout 16384 2) = Inr [233]"
    using string_summary [of "str_layout 16384 2" example_memory]
    by (auto simp: layout example_decodings)
  have e: "MSVCstrSummaryProvider example_memory (str_layout 4096 5)
      = Inl (Exception ''ReadMemory error: %s'' ''memory read failed'')"
    using string_summary [of "str_layout 4096 5" example_memory] by (simp add: layout)
  have f: "StdStringSummaryProvider example_memory (string_layout 8192 0) = Inr []"
    using string_summary [of "string_layout 8192 0" example_memory] by (simp add: layout)
  have g: "StdStringSummaryProvider example_memory (string_layout 12288 3) = Inr [104, 65533, 105]"
    using string_summary [of "string_layout 12288 3" example_memory]
    by (auto simp: layout example_decodings)
  have h: "StdStringSummaryProvider example_memory (string_layout 16384 2) = Inr [233]"
    using string_summary [of "string_layout 16384 2" example_memory]
    by (auto simp: layout example_decodings)
  have i: "StdStringSummaryProvider example_memory (string_layout 4096 5)
      = Inl (Exception ''ReadMemory error: %s'' ''memory read failed'')"
    using string_summary [of "string_layout 4096 5" example_memory] by (simp add: layout)
  show ?thesis
    using a b c d e f g h i example_decodings(3) by simp
qed

subsection \<open>Sum types\<close>

lemma niche_summary:
  assumes "niche_scan valobj"
  shows "MSVCEnumSyntheticProvider_init valobj
      = Inr \<lparr>enum_valobj = valobj, enum_is_niche = True, enum_variant = Some valobj,
             enum_tag = None, enum_variant_type = None, enum_variant_name = None\<rparr>"
    and "MSVCEnumSummaryProvider valobj = Inl (AttributeError ''tag'')"
proof -
  show init: "MSVCEnumSyntheticProvider_init valobj
      = Inr \<lparr>enum_valobj = valobj, enum_is_niche = True, enum_variant = Some valobj,
             enum_tag = None, enum_variant_type = None, enum_variant_name = None\<rparr>"
    using assms by (simp add: MSVCEnumSyntheticProvider_init_def MSVCEnumSyntheticProvider_update_def)
  show "MSVCEnumSummaryProvider valobj = Inl (AttributeError ''tag'')"
    by (simp add: MSVCEnumSummaryProvider_def init raise_bind_def getattr_def)
qed

lemma str_nat_digit:
  "str_nat 0 = ''0''" "str_nat 1 = ''1''" "str_nat (Suc 0) = ''1''" "str_nat 2 = ''2''"
  by (simp_all add: str_nat.simps digit_char_def)

lemma endswith_rev: "endswith s suf \<longleftrightarrow> prefix (rev suf) (rev s)"
  by (simp add: endswith_def suffix_to_prefix)

lemma niche_scan_niche_layout: "niche_scan (sum_layout niche_statics tag payload)"
  by (simp add: niche_scan_def sum_layout_def SBValue_GetNumChildren_def SBValue_GetChildAtIndex_def
      variant_struct_def SBType_GetName_def SBType_GetStaticFieldWithName_def niche_statics_def
      endswith_rev str_nat_digit Let_def upt_rec [of 0])

text \<open>
  C5 at a niche layout.  The constructor detects the layout and \<open>update\<close> takes the value
  itself as the active variant, assigning nothing else.  The summary then reads the
  attribute \<open>tag\<close>, which only the tagged branch of \<open>update\<close> assigns: it raises
  AttributeError instead of rendering the value.
\<close>

theorem niche_summary_raises:
  "niche_scan (sum_layout niche_statics 1 (pair_payload ''3'' ''4''))
   \<and> MSVCEnumSyntheticProvider_init (sum_layout niche_statics 1 (pair_payload ''3'' ''4''))
      = Inr \<lparr>enum_valobj = sum_layout niche_statics 1 (pair_payload ''3'' ''4''),
             enum_is_niche = True,
             enum_variant = Some (sum_layout niche_statics 1 (pair_payload ''3'' ''4'')),
             enum_tag = None, enum_variant_type = None, enum_variant_name = None\<rparr>
   \<and> MSVCEnumSummaryProvider (sum_layout niche_statics 1 (pair_payload ''3'' ''4''))
      = Inl (AttributeError ''tag'')"
  using niche_scan_niche_layout [of 1 "pair_payload ''3'' ''4''"]
    niche_summary [of "sum_layout niche_statics 1 (pair_payload ''3'' ''4'')"]
  by simp





















subsection \<open>Pointer and reference chains\<close>

lemma removesuffix_const: "removesuffix (SBType_GetName t) ''const'' = own_name t"
  by (simp add: removesuffix_def endswith_def own_name_def SBType_GetName_def eval_nat_numeral)

lemma last_n_suffix: "length suf = n \<Longrightarrow> (last_n n s = suf) = suffix suf s"
proof
  assume "length suf = n" "last_n n s = suf"
  then have "s = take (length s - n) s @ suf"
    using append_take_drop_id [of "length s - n" s] by (simp add: last_n_def)
  then show "suffix suf s"
    unfolding suffix_def by blast
next
  assume n: "length suf = n" and "suffix suf s"
  then obtain xs where "s = xs @ suf"
    unfolding suffix_def by blast
  then show "last_n n s = suf"
    using n by (simp add: last_n_def)
qed

lemma last_suffix: "s \<noteq> [] \<Longrightarrow> (last s = c) = suffix [c] s"
  by (cases s rule: rev_cases) auto

lemma pointee_const_code:
  assumes "is_pointer t \<or> is_reference t"
  shows "(if is_pointer (SBType_GetPointeeType t) \<or> is_reference (SBType_GetPointeeType t)
          then endswith (SBType_GetName (SBType_GetPointeeType t)) ''const''
          else startswith (SBType_GetName (SBType_GetPointeeType t)) ''const '')
         = pointee_const t"
proof -
  have "(if is_pointer p \<or> is_reference p then endswith (SBType_GetName p) ''const''
         else startswith (SBType_GetName p) ''const '')
        = pointee_const (PointerType i p)"
       "(if is_pointer p \<or> is_reference p then endswith (SBType_GetName p) ''const''
         else startswith (SBType_GetName p) ''const '')
        = pointee_const (ReferenceType i p)" for i p
    by (cases p; simp add: pointee_const_def endswith_def startswith_def SBType_GetName_def)+
  then show ?thesis
    using assms by (cases t) simp_all
qed

lemma loop_step:
  assumes "is_pointer t \<or> is_reference t" "own_name t \<noteq> []"
  shows "get_type_name_loop t w parts
      = get_type_name_loop (SBType_GetPointeeType t) (rref_shaped t) (parts @ [layer_prefix w t])"
proof -
  have "(let ptee_type = SBType_GetPointeeType t;
             ptr_name = removesuffix (SBType_GetName t) ''const'';
             ptee_name = SBType_GetName ptee_type;
             is_ref = (w \<or> last ptr_name = CHR ''&'')
         in if is_pointer ptee_type \<or> is_reference ptee_type then
              (if endswith ptee_name ''const'' then (if is_ref then ''&'' else ''*const '')
               else (if is_ref then ''&mut '' else ''*mut ''))
            else
              (if startswith ptee_name ''const '' then (if is_ref then ''&'' else ''*const '')
               else (if is_ref then ''&mut '' else ''*mut ''))) = layer_prefix w t"
    using pointee_const_code [OF assms(1)] last_suffix [OF assms(2), of "CHR ''&''"]
    by (auto simp: layer_prefix_def removesuffix_const Let_def)
  then show ?thesis
    using assms
    by (subst get_type_name_loop.simps)
      (simp add: removesuffix_const rref_shaped_def last_n_suffix)
qed

lemma loop_chain:
  "\<forall>l \<in> set (chain_layers t). own_name l \<noteq> [] \<Longrightarrow>
   get_type_name_loop t w parts
     = Inr (chain_target t,
            parts @ map2 layer_prefix (w # map rref_shaped (chain_layers t)) (chain_layers t))"
proof (induction t arbitrary: w parts)
  case (PointerType i p)
  have "get_type_name_loop (PointerType i p) w parts
      = get_type_name_loop p (rref_shaped (PointerType i p)) (parts @ [layer_prefix w (PointerType i p)])"
    using PointerType.prems loop_step [of "PointerType i p" w parts] by simp
  then show ?case
    using PointerType by simp
next
  case (ReferenceType i p)
  have "get_type_name_loop (ReferenceType i p) w parts
      = get_type_name_loop p (rref_shaped (ReferenceType i p)) (parts @ [layer_prefix w (ReferenceType i p)])"
    using ReferenceType.prems loop_step [of "ReferenceType i p" w parts] by simp
  then show ?case
    using ReferenceType by simp
next
  case (PlainType i)
  then show ?case
    by (subst get_type_name_loop.simps) simp
next
  case InvalidType
  then show ?case
    by (subst get_type_name_loop.simps) simp
qed

lemma length_chain_prefixes: "length (chain_prefixes t) = length (chain_layers t)"
  by (simp add: chain_prefixes_def)

lemma chain_prefixes_nth:
  assumes "k < length (chain_layers t)"
  shows "chain_prefixes t ! k
      = layer_prefix (0 < k \<and> rref_shaped (chain_layers t ! (k - 1))) (chain_layers t ! k)"
proof (cases k)
  case 0
  then show ?thesis
    using assms by (simp add: chain_prefixes_def)
next
  case (Suc j)
  then show ?thesis
    using assms by (simp add: chain_prefixes_def)
qed

lemma layer_prefix_cases:
  "layer_prefix w l \<in> {''&'', ''&mut '', ''*const '', ''*mut ''}"
  "w \<Longrightarrow> layer_prefix w l \<in> {''&'', ''&mut ''}"
  "suffix ''&'' (own_name l) \<Longrightarrow> layer_prefix w l \<in> {''&'', ''&mut ''}"
  "\<not> w \<Longrightarrow> \<not> suffix ''&'' (own_name l) \<Longrightarrow> layer_prefix w l \<in> {''*const '', ''*mut ''}"
  by (simp_all add: layer_prefix_def)

lemma no_layers:
  assumes "chain_layers t = []"
  shows "get_type_name_loop t False [] = Inr (t, [])"
proof -
  have "\<not> (is_pointer t \<or> is_reference t)"
    using assms by (cases t) simp_all
  then show ?thesis
    by (subst get_type_name_loop.simps) simp
qed

text \<open>
  C6.  A layer's own name is its name without a trailing \<open>const\<close>.  Let the layers of the
  declared type have non-empty own names and let the target resolve to a name.  Then the
  type name is the prefixes of the layers, outermost first, followed by the resolved
  name of the unqualified target.  There is one prefix per layer, each one of \<open>&\<close>,
  \<open>&mut \<close>, \<open>*const \<close>, \<open>*mut \<close>.  The prefix of a layer is that of a reference (\<open>&\<close> or
  \<open>&mut \<close>) whenever the own name of the layer before it ends in \<open>&&\<close>, whatever the
  layer's own name, and also when its own name ends in \<open>&\<close>; otherwise it is that of a
  pointer.  For a type with no layers the result is exactly what the resolver gives for
  the unqualified type.
\<close>

theorem pointer_chain_type_name:
  "((\<forall>l \<in> set (chain_layers (SBValue_GetType valobj)). own_name l \<noteq> [])
      \<and> type_name_from_type lldb (SBType_GetUnqualifiedType (chain_target (SBValue_GetType valobj)))
          = Inr name \<longrightarrow>
      RefSyntheticProvider_get_type_name lldb valobj
        = Inr (concat (chain_prefixes (SBValue_GetType valobj)) @ name))
   \<and> length (chain_prefixes (SBValue_GetType valobj)) = length (chain_layers (SBValue_GetType valobj))
   \<and> (\<forall>k < length (chain_layers (SBValue_GetType valobj)).
        chain_prefixes (SBValue_GetType valobj) ! k \<in> {''&'', ''&mut '', ''*const '', ''*mut ''}
        \<and> (0 < k \<and> rref_shaped (chain_layers (SBValue_GetType valobj) ! (k - 1)) \<longrightarrow>
             chain_prefixes (SBValue_GetType valobj) ! k \<in> {''&'', ''&mut ''})
        \<and> (suffix ''&'' (own_name (chain_layers (SBValue_GetType valobj) ! k)) \<longrightarrow>
             chain_prefixes (SBValue_GetType valobj) ! k \<in> {''&'', ''&mut ''})
        \<and> (\<not> (0 < k \<and> rref_shaped (chain_layers (SBValue_GetType valobj) ! (k - 1)))
             \<and> \<not> suffix ''&'' (own_name (chain_layers (SBValue_GetType valobj) ! k)) \<longrightarrow>
             chain_prefixes (SBValue_GetType valobj) ! k \<in> {''*const '', ''*mut ''}))
   \<and> (chain_layers (SBValue_GetType valobj) = [] \<longrightarrow>
        RefSyntheticProvider_get_type_name lldb valobj
          = type_name_from_type lldb (SBType_GetUnqualifiedType (SBValue_GetType valobj)))"
proof -
  define t where "t = SBValue_GetType valobj"
  have main: "RefSyntheticProvider_get_type_name lldb valobj = Inr (concat (chain_prefixes t) @ name)"
    if "\<forall>l \<in> set (chain_layers t). own_name l \<noteq> []"
      and "type_name_from_type lldb (SBType_GetUnqualifiedType (chain_target t)) = Inr name"
    using loop_chain [OF that(1), of False "[]"] that(2)
    by (simp add: RefSyntheticProvider_get_type_name_def raise_bind_def chain_prefixes_def t_def)
  have each: "chain_prefixes t ! k \<in> {''&'', ''&mut '', ''*const '', ''*mut ''}
        \<and> (0 < k \<and> rref_shaped (chain_layers t ! (k - 1)) \<longrightarrow>
             chain_prefixes t ! k \<in> {''&'', ''&mut ''})
        \<and> (suffix ''&'' (own_name (chain_layers t ! k)) \<longrightarrow>
             chain_prefixes t ! k \<in> {''&'', ''&mut ''})
        \<and> (\<not> (0 < k \<and> rref_shaped (chain_layers t ! (k - 1)))
             \<and> \<not> suffix ''&'' (own_name (chain_layers t ! k)) \<longrightarrow>
             chain_prefixes t ! k \<in> {''*const '', ''*mut ''})"
    if "k < length (chain_layers t)" for k
    unfolding chain_prefixes_nth [OF that]
    using layer_prefix_cases [where w = "0 < k \<and> rref_shaped (chain_layers t ! (k - 1))"
        and l = "chain_layers t ! k"]
    by blast
  have zero: "RefSyntheticProvider_get_type_name lldb valobj
          = type_name_from_type lldb (SBType_GetUnqualifiedType t)"
    if "chain_layers t = []"
    using no_layers [OF that]
    by (cases "type_name_from_type lldb (SBType_GetUnqualifiedType t)")
      (simp_all add: RefSyntheticProvider_get_type_name_def raise_bind_def t_def)
  show ?thesis
    using main each zero length_chain_prefixes [of t] unfolding t_def by blast
qed

lemma suffix_rev: "suffix suf s \<longleftrightarrow> prefix (rev suf) (rev s)"
  by (simp add: suffix_to_prefix)

lemma u8_resolves:
  "type_name_from_type lldb_constants (SBType_GetUnqualifiedType u8_type) = Inr ''u8''"
  by (simp add: type_name_from_type_def u8_type_def lldb_constants_def NUM_TYPE_MAP_def
      SBType_GetBasicType_def SBType_GetByteSize_def str_nat.simps digit_char_def)

lemma rref_to_pointer_chain:
  "chain_layers rref_to_pointer
     = [rref_to_pointer, PointerType (layer_info ''u8 *'') u8_type]"
  "chain_target rref_to_pointer = u8_type"
  "own_name rref_to_pointer = ''u8 *&&''"
  "own_name (PointerType (layer_info ''u8 *'') u8_type) = ''u8 *''"
  by (simp_all add: rref_to_pointer_def u8_type_def own_name_def suffix_rev layer_info_def)

lemma rref_to_pointer_prefixes: "chain_prefixes rref_to_pointer = [''&mut '', ''&mut '']"
proof -
  have "rref_shaped rref_to_pointer"
    by (simp add: rref_shaped_def rref_to_pointer_chain suffix_rev)
  moreover have "\<not> pointee_const rref_to_pointer"
    "\<not> pointee_const (PointerType (layer_info ''u8 *'') u8_type)"
    by (simp_all add: pointee_const_def rref_to_pointer_def u8_type_def suffix_rev layer_info_def)
  ultimately show ?thesis
    by (simp add: chain_prefixes_def rref_to_pointer_chain layer_prefix_def suffix_rev)
qed

theorem pointer_chain_type_name_witness:
  "RefSyntheticProvider_get_type_name lldb_constants (SBValue ''r'' rref_to_pointer None 0 [] [])
     = Inr ''&mut &mut u8''
   \<and> own_name rref_to_pointer = ''u8 *&&''
   \<and> chain_prefixes rref_to_pointer = [''&mut '', ''&mut '']
   \<and> RefSyntheticProvider_get_type_name lldb_constants (SBValue ''x'' u8_type None 0 [] [])
     = Inr ''u8''"
proof -
  have "(\<forall>l \<in> set (chain_layers (SBValue_GetType (SBValue ''r'' rref_to_pointer None 0 [] []))).
          own_name l \<noteq> [])
      \<and> type_name_from_type lldb_constants
          (SBType_GetUnqualifiedType (chain_target (SBValue_GetType (SBValue ''r'' rref_to_pointer None 0 [] []))))
          = Inr ''u8''"
    by (simp add: rref_to_pointer_chain u8_resolves)
  then have "RefSyntheticProvider_get_type_name lldb_constants (SBValue ''r'' rref_to_pointer None 0 [] [])
      = Inr (concat (chain_prefixes (SBValue_GetType (SBValue ''r'' rref_to_pointer None 0 [] []))) @ ''u8'')"
    using pointer_chain_type_name [of "SBValue ''r'' rref_to_pointer None 0 [] []" lldb_constants "''u8''"]
    by blast
  then have a: "RefSyntheticProvider_get_type_name lldb_constants (SBValue ''r'' rref_to_pointer None 0 [] [])
      = Inr ''&mut &mut u8''"
    by (simp add: rref_to_pointer_prefixes)
  have "chain_layers (SBValue_GetType (SBValue ''x'' u8_type None 0 [] [])) = []"
    by (simp add: u8_type_def)
  then have "RefSyntheticProvider_get_type_name lldb_constants (SBValue ''x'' u8_type None 0 [] [])
      = type_name_from_type lldb_constants
          (SBType_GetUnqualifiedType (SBValue_GetType (SBValue ''x'' u8_type None 0 [] [])))"
    using pointer_chain_type_name [of "SBValue ''x'' u8_type None 0 [] []" lldb_constants]
    by blast
  then have b: "RefSyntheticProvider_get_type_name lldb_constants (SBValue ''x'' u8_type None 0 [] [])
      = Inr ''u8''"
    by (simp add: u8_resolves)
  from a b rref_to_pointer_prefixes rref_to_pointer_chain(3) show ?thesis
    by simp
qed

end
